theory Spec2Isabelle
  imports Main
begin

text \<open>
  A model of the story-telling application: the functions of the generation service that
  fall back on failure, the page navigation of the story reader, and the story wizard
  with its idle escalation, its badges and its points. The wizard is a React component;
  its model keeps apart the state of the latest render and the render whose closures the
  timer effect installed, since the handlers that the interval calls read the latter,
  and it keeps the requests that are still to be answered, since their answers come at
  any time and in any order.
\<close>

section \<open>JavaScript values\<close>

text \<open>
  Strings are lists of code units; a \<^typ>\<open>char\<close> stands for a code unit below 256.
  Texts with other code units are not spelled out; the one place where the program
  treats them differently, the URIError of \<open>encodeURIComponent\<close> on a lone surrogate, is the
  \<open>None\<close> of a parameter.
  A value of type \<open>string | null | undefined\<close> is a \<^typ>\<open>string option\<close>, with
  \<open>None\<close> for both \<open>null\<close> and \<open>undefined\<close>: the program only ever tests such a
  value for truthiness.
\<close>

definition truthy :: "string option \<Rightarrow> bool" where
  "truthy v = (case v of None \<Rightarrow> False | Some s \<Rightarrow> s \<noteq> [])"

text \<open>\<open>v || d\<close> on strings: the empty string is falsy.\<close>

definition or_else :: "string option \<Rightarrow> string \<Rightarrow> string" where
  "or_else v d = (case v of None \<Rightarrow> d | Some s \<Rightarrow> if s = [] then d else s)"

text \<open>
  \<open>String.prototype.trim\<close> removes white space and line terminators from both ends.
  Below 256 these are TAB, LF, VT, FF, CR, SP and NBSP.
\<close>

definition is_space :: "char \<Rightarrow> bool" where
  "is_space c =
     (c \<in> set [CHR 0x09, CHR 0x0A, CHR 0x0B, CHR 0x0C, CHR 0x0D, CHR 0x20, CHR 0xA0])"

definition trim :: "string \<Rightarrow> string" where
  "trim s = rev (dropWhile is_space (rev (dropWhile is_space s)))"

section \<open>The generation service\<close>

text \<open>
  The module imported as \<open>services/geminiService\<close> (src/unnamed/part_001, from line 187).
\<close>

text \<open>
  Every function of the service awaits one call \<open>ai.models.generateContent\<close> inside a
  \<open>try\<close> block. The call is outside the program: its promise either rejects or resolves
  with a response, and the model takes that outcome as an argument. The request text
  (prompt, language name, model) only travels to the service and is not modelled.
\<close>

datatype 'a reply = Rejected | Resolved 'a

datatype failure = ApiError | NoImageData | SyntaxError | TypeError | URIError

subsection \<open>generateImage\<close>

text \<open>
  A part of the response is represented by \<open>part.inlineData\<close> (absent: \<open>None\<close>) and
  inside it \<open>data\<close> (absent: \<open>None\<close>). The response as a whole is represented by
  \<open>response.candidates?.[0]?.content?.parts\<close>, \<open>None\<close> when the chain is undefined.
\<close>

type_synonym part = "string option option"

text \<open>The loop over the parts returns at the first part with truthy inline data.\<close>

fun first_inline :: "part list \<Rightarrow> string option" where
  "first_inline [] = None"
| "first_inline (p # ps) =
     (case p of
        Some (Some d) \<Rightarrow> if d \<noteq> [] then Some d else first_inline ps
      | _ \<Rightarrow> first_inline ps)"

text \<open>The body of the \<open>try\<close> block: the data URI, or what is thrown.\<close>

definition image_request :: "part list option reply \<Rightarrow> failure + string" where
  "image_request r =
     (case r of
        Rejected \<Rightarrow> Inl ApiError
      | Resolved None \<Rightarrow> Inl NoImageData
      | Resolved (Some ps) \<Rightarrow>
          (case first_inline ps of
             Some d \<Rightarrow> Inr (''data:image/png;base64,'' @ d)
           | None \<Rightarrow> Inl NoImageData))"

text \<open>
  The \<open>catch\<close> block returns the placeholder
  \<open>https://picsum.photos/seed/${encodeURIComponent(prompt).slice(0, 10)}/512/512\<close>.
  The built-in \<open>encodeURIComponent\<close> is the parameter \<open>enc\<close>; it throws a URIError on a text
  with a lone surrogate, which is \<open>None\<close>. Nothing catches an exception of the \<open>catch\<close>
  block.
\<close>

definition placeholder :: "(string \<Rightarrow> string option) \<Rightarrow> string \<Rightarrow> failure + string" where
  "placeholder enc prompt =
     (case enc prompt of
        None \<Rightarrow> Inl URIError
      | Some encoded \<Rightarrow> Inr (''https://picsum.photos/seed/'' @ take 10 encoded @ ''/512/512''))"

text \<open>
  The promise that \<open>generateImage\<close> returns, once settled: fulfilled with an address
  (\<open>Inr\<close>) or rejected (\<open>Inl\<close>).
\<close>

definition generateImage ::
  "(string \<Rightarrow> string option) \<Rightarrow> string \<Rightarrow> part list option reply \<Rightarrow> failure + string" where
  "generateImage enc prompt r =
     (case image_request r of Inr url \<Rightarrow> Inr url | Inl e \<Rightarrow> placeholder enc prompt)"

subsection \<open>generateText\<close>

text \<open>The response is represented by \<open>response.text\<close>.\<close>

definition generateText :: "string option reply \<Rightarrow> string" where
  "generateText r =
     (case r of
        Rejected \<Rightarrow> ''Something magical happened...''
      | Resolved t \<Rightarrow> or_else t [])"

subsection \<open>generateSuggestions\<close>

text \<open>
  \<open>JSON.parse(text) as string[]\<close> is the parameter \<open>parse\<close>, \<open>None\<close> when it throws. The cast
  is unchecked, and the value is returned as it is. It is read through what the caller
  does with it: the caller calls \<open>map\<close> and \<open>forEach\<close> on it, which is a TypeError unless the
  value is an array, and uses the elements as labels. The elements of an array are taken
  to be strings; an array with other elements is not modelled.
\<close>

datatype labels = NotAnArray | Labels "string list"

definition suggestions_request ::
  "(string \<Rightarrow> labels option) \<Rightarrow> string option reply \<Rightarrow> failure + labels" where
  "suggestions_request parse r =
     (case r of
        Rejected \<Rightarrow> Inl ApiError
      | Resolved t \<Rightarrow>
          (case t of
             None \<Rightarrow> Inr (Labels [''Option 1'', ''Option 2'', ''Option 3''])
           | Some s \<Rightarrow>
               if s = [] then Inr (Labels [''Option 1'', ''Option 2'', ''Option 3''])
               else (case parse s of None \<Rightarrow> Inl SyntaxError | Some v \<Rightarrow> Inr v)))"

definition generateSuggestions ::
  "(string \<Rightarrow> labels option) \<Rightarrow> string option reply \<Rightarrow> labels" where
  "generateSuggestions parse r =
     (case suggestions_request parse r of
        Inr v \<Rightarrow> v
      | Inl e \<Rightarrow> Labels [''A funny cat'', ''A big bear'', ''A flying fish''])"

subsection \<open>generateStorySegments\<close>

record StoryInputs =
  character :: string
  place :: string
  time :: string
  plot :: string

record Segment =
  text' :: string
  imagePrompt :: string

text \<open>
  The parsed JSON is read through what the function does with it: it asks whether the
  value is an array, and reads \<open>storyText\<close> and \<open>imageDescription\<close> of every element. An
  element that is \<open>null\<close> makes the property access throw a TypeError; any other element
  is represented by the two properties, \<open>None\<close> where one is missing.
\<close>

datatype item = NullItem | Item (storyText: "string option") (imageDescription: "string option")

datatype parsed = NotArray | Items "item list"

text \<open>\<open>text.replace(/```json|```/g, '')\<close>: every fence is removed, scanning from the left.\<close>

fun strip_fences :: "string \<Rightarrow> string" where
  "strip_fences [] = []"
| "strip_fences (c # cs) =
     (if take 7 (c # cs) = ''```json'' then strip_fences (drop 6 cs)
      else if take 3 (c # cs) = ''```'' then strip_fences (drop 2 cs)
      else c # strip_fences cs)"

definition in_place :: "StoryInputs \<Rightarrow> string" where
  "in_place inp = character inp @ '' in '' @ place inp"

text \<open>
  The callback of \<open>data.map\<close>: reading a property of \<open>null\<close> throws, and the exception
  leaves the whole \<open>map\<close>.
\<close>

fun segment_of :: "StoryInputs \<Rightarrow> item \<Rightarrow> failure + Segment" where
  "segment_of inp NullItem = Inl TypeError"
| "segment_of inp (Item st im) =
     Inr \<lparr>text' = or_else st ''Story continues...'', imagePrompt = or_else im (in_place inp)\<rparr>"

fun segments_of :: "StoryInputs \<Rightarrow> item list \<Rightarrow> failure + Segment list" where
  "segments_of inp [] = Inr []"
| "segments_of inp (it # its) =
     (case segment_of inp it of
        Inl e \<Rightarrow> Inl e
      | Inr sg \<Rightarrow> (case segments_of inp its of Inl e \<Rightarrow> Inl e | Inr sgs \<Rightarrow> Inr (sg # sgs)))"

definition segments_request ::
  "(string \<Rightarrow> parsed option) \<Rightarrow> StoryInputs \<Rightarrow> string option reply \<Rightarrow> failure + Segment list" where
  "segments_request parse inp r =
     (case r of
        Rejected \<Rightarrow> Inl ApiError
      | Resolved t \<Rightarrow>
          (case parse (trim (strip_fences (or_else t ''[]''))) of
             None \<Rightarrow> Inl SyntaxError
           | Some NotArray \<Rightarrow> Inr [\<lparr>text' = plot inp, imagePrompt = in_place inp\<rparr>]
           | Some (Items xs) \<Rightarrow> segments_of inp xs))"

definition generateStorySegments ::
  "(string \<Rightarrow> parsed option) \<Rightarrow> StoryInputs \<Rightarrow> string option reply \<Rightarrow> Segment list" where
  "generateStorySegments parse inp r =
     (case segments_request parse inp r of
        Inr segs \<Rightarrow> segs
      | Inl e \<Rightarrow> [\<lparr>text' = plot inp, imagePrompt = plot inp\<rparr>])"

section \<open>The story reader\<close>

text \<open>
  The component imported as \<open>pages/StoryReader\<close> (src/unnamed/part_003, from line 70), with
  the page type of src/types.ts.
\<close>

record StoryPage =
  text' :: string
  imageUrl :: string
  imagePrompt :: "string option"

text \<open>Of a story the reader's handlers read only the list of pages.\<close>

record Story =
  title :: string
  pages :: "StoryPage list"

text \<open>
  The state of the reader that its navigation touches. Page indices are JavaScript
  numbers, hence integers: \<open>story.pages.length - 1\<close> is \<open>-1\<close> for a story without pages.
\<close>

record Reader =
  currentPage :: int
  isPlaying :: bool

definition reader_init :: Reader where
  "reader_init = \<lparr>currentPage = 0, isPlaying = False\<rparr>"

definition stopAudio :: "Reader \<Rightarrow> Reader" where
  "stopAudio rd = rd\<lparr>isPlaying := False\<rparr>"

text \<open>
  A click is handled by the handler of the latest render, so the \<open>currentPage\<close> of the
  guard and the \<open>prev\<close> of the update are the same number.
\<close>

definition handleNext :: "Story \<Rightarrow> Reader \<Rightarrow> Reader" where
  "handleNext story rd =
     (let rd1 = stopAudio rd in
      if currentPage rd < int (length (pages story)) - 1
      then rd1\<lparr>currentPage := currentPage rd1 + 1\<rparr> else rd1)"

definition handlePrev :: "Story \<Rightarrow> Reader \<Rightarrow> Reader" where
  "handlePrev story rd =
     (let rd1 = stopAudio rd in
      if currentPage rd > 0 then rd1\<lparr>currentPage := currentPage rd1 - 1\<rparr> else rd1)"

datatype reader_event = Next | Prev

fun reader_step :: "Story \<Rightarrow> Reader \<Rightarrow> reader_event \<Rightarrow> Reader" where
  "reader_step story rd Next = handleNext story rd"
| "reader_step story rd Prev = handlePrev story rd"

definition reader_run :: "Story \<Rightarrow> reader_event list \<Rightarrow> Reader" where
  "reader_run story evs = foldl (reader_step story) reader_init evs"

section \<open>The story wizard\<close>

text \<open>The component of src/pages/StoryWizard.tsx, with the types of src/types.ts.\<close>

subsection \<open>State\<close>

datatype AgeGroup = TODDLER | EARLY_READER | PRE_TEEN

text \<open>\<open>WizardStep\<close> is a numeric enum, and \<open>confirmStep\<close> adds one to it.\<close>

type_synonym WizardStep = nat

abbreviation (input) AGE_SELECTION :: WizardStep where "AGE_SELECTION \<equiv> 0"
abbreviation (input) CHARACTER :: WizardStep where "CHARACTER \<equiv> 1"
abbreviation (input) PLACE :: WizardStep where "PLACE \<equiv> 2"
abbreviation (input) TIME :: WizardStep where "TIME \<equiv> 3"
abbreviation (input) PLOT :: WizardStep where "PLOT \<equiv> 4"
abbreviation (input) PREVIEW :: WizardStep where "PREVIEW \<equiv> 5"

record Pictured =
  description :: string
  imageUrl :: string

record WizardState =
  step :: WizardStep
  ageGroup :: "AgeGroup option"
  character :: "Pictured option"
  place :: "Pictured option"
  time :: "string option"
  plotInput :: string
  generatedPages :: "StoryPage list"

datatype InteractionMode = Input | Options | Confirmation

text \<open>
  An option card. The interface declares \<open>label: string\<close>; the label is optional here
  because \<open>{ ...next[index], imageUrl: url, loading: false }\<close> builds a card without one
  when \<open>next[index]\<close> is undefined. An element of the card array is \<open>None\<close> when it is
  undefined or a hole.
\<close>

record OptionCard =
  label :: "string option"
  imageUrl :: "string option"
  loading :: bool

text \<open>The icon of a badge is an emoji that nothing reads; it is left out.\<close>

record Badge =
  id' :: string
  name :: string
  description :: string

text \<open>
  The state hooks of the component. \<open>badgeLog\<close> is a history variable, not a hook: it
  records every badge passed to \<open>setNewBadge\<close>, latest first, so that theorems can
  count how often a badge was issued.
\<close>

record Wizard =
  state :: WizardState
  isLoading :: bool
  inactivityTimer :: nat
  mode :: InteractionMode
  suggestedOptions :: "OptionCard option list"
  autoSelectCandidate :: "OptionCard option"
  currentPoints :: int
  newBadge :: "Badge option"
  tempInput :: string
  badgeLog :: "Badge list"

definition wizard_init :: "int \<Rightarrow> Wizard" where
  "wizard_init points =
     \<lparr>state = \<lparr>step = AGE_SELECTION, ageGroup = None, character = None, place = None,
                time = None, plotInput = [], generatedPages = []\<rparr>,
      isLoading = False, inactivityTimer = 0, mode = Input, suggestedOptions = [],
      autoSelectCandidate = None, currentPoints = points, newBadge = None,
      tempInput = [], badgeLog = []\<rparr>"

subsection \<open>The world outside the component\<close>

text \<open>
  What the browser and the generation service answer: the two built-ins the service
  module calls, and the outcome of each request as a function of what the component
  passes to the service function.
\<close>

record World =
  encodeURIComponent :: "string \<Rightarrow> string option"
  parse_strings :: "string \<Rightarrow> labels option"
  parse_story :: "string \<Rightarrow> parsed option"
  suggestions_reply :: "string \<Rightarrow> AgeGroup \<Rightarrow> string option reply"
  image_reply :: "string \<Rightarrow> part list option reply"
  story_reply :: "StoryInputs \<Rightarrow> AgeGroup option \<Rightarrow> string option reply"

text \<open>
  \<open>await generateImage(prompt)\<close> inside a \<open>try\<close> block of the component: the value awaited,
  or the exception that the \<open>catch\<close> block of the component receives.
\<close>

definition await_image :: "World \<Rightarrow> string \<Rightarrow> failure + string" where
  "await_image w prompt = generateImage (encodeURIComponent w) prompt (image_reply w prompt)"

subsection \<open>Handlers\<close>

text \<open>
  A handler is a closure of one render: it reads the state of that render (the argument
  \<open>r\<close>) and writes through the setters. The writes it makes without waiting form one
  batch, a function from the state before to the state after: a functional update
  \<open>setX(prev => ...)\<close> reads the state before the batch, a plain read reads \<open>r\<close>. At an
  \<open>await\<close> of a request the handler is suspended, and what it does when the request is
  answered is a task of its own: again a batch of writes and the tasks that wait for the
  requests started by then. An exception that leaves an asynchronous function without
  being caught rejects a promise that nobody awaits, and writes nothing.
\<close>

datatype task = Task "Wizard \<Rightarrow> Wizard" "task list" | Uncaught failure

fun writes :: "task \<Rightarrow> Wizard \<Rightarrow> Wizard" where
  "writes (Task f ts) = f"
| "writes (Uncaught e) = (\<lambda>s. s)"

fun awaited :: "task \<Rightarrow> task list" where
  "awaited (Task f ts) = ts"
| "awaited (Uncaught e) = []"

definition getContext :: "Wizard \<Rightarrow> string" where
  "getContext r =
     (if step (state r) = PLACE then ''place''
      else if step (state r) = TIME then ''time''
      else ''character'')"

paragraph \<open>handleShowOptions\<close>

text \<open>\<open>xs[i]\<close> and \<open>xs[i] = v\<close> on a JavaScript array: a write past the end extends it.\<close>

definition at :: "'a option list \<Rightarrow> nat \<Rightarrow> 'a option" where
  "at xs i = (if i < length xs then xs ! i else None)"

definition assign :: "'a option list \<Rightarrow> nat \<Rightarrow> 'a \<Rightarrow> 'a option list" where
  "assign xs i v =
     (if i < length xs then xs[i := Some v]
      else xs @ replicate (i - length xs) None @ [Some v])"

text \<open>\<open>{ ...old }\<close>: spreading \<open>undefined\<close> gives an object without properties.\<close>

definition spread :: "OptionCard option \<Rightarrow> OptionCard" where
  "spread old =
     (case old of
        None \<Rightarrow> \<lparr>label = None, imageUrl = None, loading = False\<rparr>
      | Some c \<Rightarrow> c)"

definition options_loaded :: "string list \<Rightarrow> Wizard \<Rightarrow> Wizard" where
  "options_loaded texts s =
     s\<lparr>suggestedOptions := map (\<lambda>t. Some \<lparr>label = Some t, imageUrl = None, loading = True\<rparr>) texts\<rparr>"

definition option_prompt :: "Wizard \<Rightarrow> string \<Rightarrow> string" where
  "option_prompt r t =
     (if step (state r) = PLACE then ''A cartoon background of '' @ t
      else ''A cute '' @ t @ '' character'')"

text \<open>
  The two updates of the \<open>forEach\<close> callback, after the \<open>try\<close> block and in its
  \<open>catch\<close> block.
\<close>

definition option_settled :: "nat \<Rightarrow> failure + string \<Rightarrow> Wizard \<Rightarrow> Wizard" where
  "option_settled index outcome s =
     (let prev = suggestedOptions s in
      case outcome of
        Inr url \<Rightarrow>
          s\<lparr>suggestedOptions :=
              assign prev index ((spread (at prev index))\<lparr>imageUrl := Some url, loading := False\<rparr>)\<rparr>
      | Inl e \<Rightarrow>
          s\<lparr>suggestedOptions := assign prev index ((spread (at prev index))\<lparr>loading := False\<rparr>)\<rparr>)"

text \<open>
  The handler sets the mode and waits for the suggestions. When they are there it calls
  \<open>texts.map\<close>, outside any \<open>try\<close> block, sets the cards and starts one image request for
  each label, all at once: each is answered in its own time.
\<close>

definition handleShowOptions :: "World \<Rightarrow> Wizard \<Rightarrow> task" where
  "handleShowOptions w r =
     Task (\<lambda>s. s\<lparr>mode := Options\<rparr>)
       [case generateSuggestions (parse_strings w)
               (suggestions_reply w (getContext r)
                  (case ageGroup (state r) of None \<Rightarrow> EARLY_READER | Some a \<Rightarrow> a)) of
          NotAnArray \<Rightarrow> Uncaught TypeError
        | Labels texts \<Rightarrow>
            Task (options_loaded texts)
              (map (\<lambda>(index, t). Task (option_settled index (await_image w (option_prompt r t))) [])
                 (enumerate 0 texts))]"

paragraph \<open>handleShowConfirmation\<close>

text \<open>
  \<open>suggestedOptions[0] || { label: "Magic Friend", ... }\<close>, with the \<open>suggestedOptions\<close> of
  the render that created the handler.
\<close>

definition handleShowConfirmation :: "Wizard \<Rightarrow> Wizard \<Rightarrow> Wizard" where
  "handleShowConfirmation r s =
     (let candidate = (case at (suggestedOptions r) 0 of
                         Some c \<Rightarrow> c
                       | None \<Rightarrow> \<lparr>label = Some ''Magic Friend'', imageUrl = None, loading = False\<rparr>)
      in s\<lparr>mode := Confirmation, autoSelectCandidate := Some candidate\<rparr>)"

paragraph \<open>handleSelection\<close>

definition set_character :: "string \<Rightarrow> string \<Rightarrow> Wizard \<Rightarrow> Wizard" where
  "set_character choice img s =
     s\<lparr>state := (state s)\<lparr>character := Some \<lparr>Pictured.description = choice, imageUrl = img\<rparr>\<rparr>\<rparr>"

definition set_place :: "string \<Rightarrow> string \<Rightarrow> Wizard \<Rightarrow> Wizard" where
  "set_place choice img s =
     s\<lparr>state := (state s)\<lparr>place := Some \<lparr>Pictured.description = choice, imageUrl = img\<rparr>\<rparr>\<rparr>"

definition set_time :: "string \<Rightarrow> Wizard \<Rightarrow> Wizard" where
  "set_time choice s = s\<lparr>state := (state s)\<lparr>time := Some choice\<rparr>\<rparr>"

text \<open>The writes before the \<open>try\<close> block, and those of the \<open>finally\<close> block.\<close>

definition selection_begin :: "Wizard \<Rightarrow> Wizard" where
  "selection_begin s = s\<lparr>inactivityTimer := 0, mode := Input, isLoading := True\<rparr>"

definition selection_finally :: "Wizard \<Rightarrow> Wizard" where
  "selection_finally s = s\<lparr>isLoading := False, tempInput := []\<rparr>"

text \<open>
  \<open>preGeneratedImage || await generateImage(...)\<close>: with a truthy image nothing is
  awaited and the handler is a single batch; otherwise it waits for the image, and an
  exception of the awaited call skips the \<open>setState\<close> and is logged by the \<open>catch\<close> block.
\<close>

definition select_pictured ::
  "World \<Rightarrow> (string \<Rightarrow> Wizard \<Rightarrow> Wizard) \<Rightarrow> string \<Rightarrow> string option \<Rightarrow> task" where
  "select_pictured w put prompt pre =
     (let waiting =
            Task selection_begin
              [Task (\<lambda>s. selection_finally
                            (case await_image w prompt of Inr url \<Rightarrow> put url s | Inl e \<Rightarrow> s)) []]
      in case pre of
           Some img \<Rightarrow>
             if img \<noteq> [] then Task (\<lambda>s. selection_finally (put img (selection_begin s))) []
             else waiting
         | None \<Rightarrow> waiting)"

definition handleSelection :: "World \<Rightarrow> Wizard \<Rightarrow> string \<Rightarrow> string option \<Rightarrow> task" where
  "handleSelection w r choice pre =
     (if step (state r) = CHARACTER
      then select_pictured w (set_character choice) (''A cute '' @ choice @ '' character'') pre
      else if step (state r) = PLACE
      then select_pictured w (set_place choice) (''A cartoon background of '' @ choice) pre
      else if step (state r) = TIME
      then Task (\<lambda>s. selection_finally (set_time choice (selection_begin s))) []
      else Task (\<lambda>s. selection_finally (selection_begin s)) [])"

paragraph \<open>handleAutoSelect\<close>

text \<open>\<open>card.imageUrl || undefined\<close>, the second argument at every call with a card.\<close>

definition pre_image :: "OptionCard \<Rightarrow> string option" where
  "pre_image c = (if truthy (OptionCard.imageUrl c) then OptionCard.imageUrl c else None)"

text \<open>
  \<open>card.label\<close> as the argument \<open>choice\<close>. A card without label passes \<open>undefined\<close>,
  carried here as the text that a template literal prints for it.
\<close>

definition choice_of :: "OptionCard \<Rightarrow> string" where
  "choice_of c = (case label c of Some l \<Rightarrow> l | None \<Rightarrow> ''undefined'')"

definition handleAutoSelect :: "World \<Rightarrow> Wizard \<Rightarrow> task" where
  "handleAutoSelect w r =
     (case autoSelectCandidate r of
        Some c \<Rightarrow> handleSelection w r (choice_of c) (pre_image c)
      | None \<Rightarrow> handleSelection w r ''Magic Friend'' None)"

paragraph \<open>awardPoints, checkBadges, confirmStep\<close>

definition awardPoints :: "int \<Rightarrow> Wizard \<Rightarrow> Wizard" where
  "awardPoints amount s = s\<lparr>currentPoints := currentPoints s + amount\<rparr>"

definition setNewBadge :: "Badge \<Rightarrow> Wizard \<Rightarrow> Wizard" where
  "setNewBadge b s = s\<lparr>newBadge := Some b, badgeLog := b # badgeLog s\<rparr>"

definition char_creator :: Badge where
  "char_creator =
     \<lparr>id' = ''char_creator'', name = ''Character Creator'',
      description = ''You made a new friend!''\<rparr>"

definition world_builder :: Badge where
  "world_builder =
     \<lparr>id' = ''world_builder'', name = ''World Builder'',
      description = ''You discovered a new place!''\<rparr>"

definition master_story :: Badge where
  "master_story =
     \<lparr>id' = ''master_story'', name = ''Master Storyteller'',
      description = ''You created a whole book!''\<rparr>"

definition checkBadges :: "WizardStep \<Rightarrow> Wizard \<Rightarrow> Wizard" where
  "checkBadges stp s =
     (let badge = (if stp = CHARACTER then Some char_creator
                   else if stp = PLACE then Some world_builder
                   else None)
      in case badge of Some b \<Rightarrow> setNewBadge b s | None \<Rightarrow> s)"

definition confirmStep :: "Wizard \<Rightarrow> Wizard \<Rightarrow> Wizard" where
  "confirmStep r s =
     (let s1 = awardPoints 10 s;
          s2 = checkBadges (step (state r)) s1;
          s3 = s2\<lparr>state := (state s2)\<lparr>step := step (state s2) + 1\<rparr>\<rparr>
      in s3\<lparr>mode := Input, suggestedOptions := [], autoSelectCandidate := None\<rparr>)"

paragraph \<open>generatePage\<close>

text \<open>
  \<open>await Promise.all(segments.map(async seg => ...))\<close>: the pages in the order of the
  segments, or the first exception.
\<close>

fun await_pages :: "World \<Rightarrow> Segment list \<Rightarrow> failure + StoryPage list" where
  "await_pages w [] = Inr []"
| "await_pages w (seg # segs) =
     (case await_image w (Segment.imagePrompt seg) of
        Inl e \<Rightarrow> Inl e
      | Inr img \<Rightarrow>
          (case await_pages w segs of
             Inl e \<Rightarrow> Inl e
           | Inr ps \<Rightarrow>
               Inr (\<lparr>StoryPage.text' = Segment.text' seg, imageUrl = img,
                     imagePrompt = Some (Segment.imagePrompt seg)\<rparr> # ps)))"

text \<open>
  The writes after the two awaits of the \<open>try\<close> block when they fulfil, the \<open>catch\<close>
  block (an alert) when one throws, and the \<open>finally\<close> block in both cases.
\<close>

definition generate_settled :: "failure + StoryPage list \<Rightarrow> Wizard \<Rightarrow> Wizard" where
  "generate_settled outcome s =
     (case outcome of
        Inr newPages \<Rightarrow>
          (let s1 = awardPoints 50 s;
               s2 = setNewBadge master_story s1;
               s3 = s2\<lparr>state := (state s2)\<lparr>generatedPages := newPages, step := PREVIEW\<rparr>\<rparr>
           in s3\<lparr>isLoading := False\<rparr>)
      | Inl e \<Rightarrow> s\<lparr>isLoading := False\<rparr>)"

text \<open>
  The guard \<open>!state.character || !state.place || !state.time\<close> also returns on the
  empty time, which is falsy; the handler then writes nothing (\<open>None\<close>). Otherwise it sets
  \<open>isLoading\<close> and waits, first for the segments and then for all their images; nothing is
  written between the two.
\<close>

definition generatePage :: "World \<Rightarrow> Wizard \<Rightarrow> task option" where
  "generatePage w r =
     (case (character (state r), place (state r), time (state r)) of
        (Some ch, Some pl, Some tm) \<Rightarrow>
          if tm = [] then None
          else
            (let inp = \<lparr>StoryInputs.character = Pictured.description ch,
                        place = Pictured.description pl, time = tm,
                        plot = or_else (Some (plotInput (state r))) ''They started an adventure.''\<rparr>;
                 segments = generateStorySegments (parse_story w) inp
                              (story_reply w inp (ageGroup (state r)))
             in Some (Task (\<lambda>s. s\<lparr>isLoading := True\<rparr>)
                        [Task (generate_settled (await_pages w segments)) []]))
      | _ \<Rightarrow> None)"

paragraph \<open>handleVoiceInput\<close>

text \<open>\<open>/^[.,!?;:]/.test(cleanNew)\<close> looks at the first code unit of a non-empty text.\<close>

definition appendText :: "string \<Rightarrow> string \<Rightarrow> string" where
  "appendText current newText =
     (let cleanNew = trim newText in
      if cleanNew = [] then current
      else
        (let needsSpace = (current \<noteq> [] \<and> last current \<noteq> CHR '' ''
                           \<and> hd cleanNew \<notin> set ''.,!?;:'')
         in current @ (if needsSpace then '' '' else []) @ cleanNew))"

definition handleVoiceInput :: "Wizard \<Rightarrow> string \<Rightarrow> Wizard \<Rightarrow> Wizard" where
  "handleVoiceInput r fragment s =
     (let s1 = s\<lparr>inactivityTimer := 0\<rparr> in
      if step (state r) = PLOT
      then s1\<lparr>state := (state s1)\<lparr>plotInput := appendText (plotInput (state s1)) fragment\<rparr>\<rparr>
      else s1\<lparr>tempInput := appendText (tempInput s1) fragment\<rparr>)"

subsection \<open>Renders, effects and pending requests\<close>

text \<open>
  The component between two events: the state of the latest render (\<open>cur\<close>), the render in
  which the first effect last ran (\<open>eff\<close>), and the tasks that wait for a request to be
  answered (\<open>pending\<close>). The interval callback and the activity listener that the effect
  installed are closures of \<open>eff\<close>.
\<close>

record Component =
  cur :: Wizard
  eff :: Wizard
  pending :: "task list"

definition mount :: "int \<Rightarrow> Component" where
  "mount points = \<lparr>cur = wizard_init points, eff = wizard_init points, pending = []\<rparr>"

text \<open>The dependency list of the first effect: \<open>[state.step, mode, isLoading, tempInput]\<close>.\<close>

definition deps :: "Wizard \<Rightarrow> WizardStep \<times> InteractionMode \<times> bool \<times> string" where
  "deps s = (step (state s), mode s, isLoading s, tempInput s)"

text \<open>
  After a batch of writes the component renders. The first effect runs again when one of
  its dependencies differs from the previous render, and only then are the interval and
  the listener replaced by closures of the new render. The second effect, with the
  dependency list \<open>[state.step]\<close>, then clears \<open>tempInput\<close>, which is one more render with a
  changed dependency when the text was not empty.
\<close>

definition render :: "Component \<Rightarrow> Component" where
  "render c =
     (let s = cur c; r = eff c in
      if deps s = deps r then c
      else
        (let s' = (if step (state s) = step (state r) then s else s\<lparr>tempInput := []\<rparr>)
         in c\<lparr>cur := s', eff := s'\<rparr>))"

definition batch :: "(Wizard \<Rightarrow> Wizard) \<Rightarrow> Component \<Rightarrow> Component" where
  "batch f c = render (c\<lparr>cur := f (cur c)\<rparr>)"

text \<open>
  Calling a handler makes its first batch of writes at once; the tasks behind its awaits
  join the pending ones.
\<close>

definition start :: "task \<Rightarrow> Component \<Rightarrow> Component" where
  "start tk c = (batch (writes tk) c)\<lparr>pending := pending c @ awaited tk\<rparr>"

text \<open>
  A pending request is answered, the one at position \<open>k\<close>: its task makes its writes and
  the tasks behind its own awaits become pending. Requests are answered in any order
  and at any time, also after other events.
\<close>

definition settle :: "nat \<Rightarrow> Component \<Rightarrow> Component" where
  "settle k c =
     (if k < length (pending c)
      then (let tk = pending c ! k;
                others = take k (pending c) @ drop (Suc k) (pending c)
            in case tk of
                 Task f ts \<Rightarrow> (batch f c)\<lparr>pending := others @ ts\<rparr>
               | Uncaught e \<Rightarrow> c\<lparr>pending := others\<rparr>)
      else c)"

text \<open>
  The first effect returns early, installing nothing, while loading or off the three
  collection steps.
\<close>

definition listening :: "Component \<Rightarrow> bool" where
  "listening c =
     (\<not> (isLoading (eff c) \<or> step (state (eff c)) \<notin> set [CHARACTER, PLACE, TIME]))"

paragraph \<open>The activity listener\<close>

definition activity :: "Wizard \<Rightarrow> Wizard \<Rightarrow> Wizard" where
  "activity r s = (if mode r = Input then s\<lparr>inactivityTimer := 0\<rparr> else s)"

paragraph \<open>The interval callback\<close>

text \<open>The handlers that the updater calls for the new counter value \<open>t\<close>, in its order.\<close>

definition tick_calls :: "World \<Rightarrow> Wizard \<Rightarrow> nat \<Rightarrow> task list" where
  "tick_calls w r t =
     (if t = 30 \<and> mode r = Input \<and> tempInput r = [] then [handleShowOptions w r] else [])
     @ (if t = 60 \<and> mode r = Options then [Task (handleShowConfirmation r) []] else [])
     @ (if t = 70 \<and> mode r = Confirmation then [handleAutoSelect w r] else [])"

text \<open>
  The callback passes \<open>setInactivityTimer\<close> an updater that calls the handlers and returns
  \<open>t\<close>. React may run an updater at once, when no update of the hook is waiting, and then
  its result is applied after the writes the handlers made (\<open>eager\<close>); or during the next
  render, and then those writes are applied after its result. The two differ only where
  a handler writes the counter itself.
\<close>

definition tick :: "bool \<Rightarrow> World \<Rightarrow> Component \<Rightarrow> Component" where
  "tick eager w c =
     (let t = inactivityTimer (cur c) + 1;
          calls = tick_calls w (eff c) t;
          updater = (\<lambda>s. if eager then (fold writes calls s)\<lparr>inactivityTimer := t\<rparr>
                         else fold writes calls (s\<lparr>inactivityTimer := t\<rparr>))
      in (batch updater c)\<lparr>pending := pending c @ concat (map awaited calls)\<rparr>)"

subsection \<open>Events\<close>

text \<open>
  What is on screen, from the JSX: \<open>renderInputStep\<close> is rendered on the three collection
  steps, with \<open>hasValue = state[field] !== null\<close> for the field of the step.
\<close>

definition on_input_step :: "Wizard \<Rightarrow> bool" where
  "on_input_step s = (step (state s) \<in> set [CHARACTER, PLACE, TIME])"

definition hasValue :: "Wizard \<Rightarrow> bool" where
  "hasValue s =
     (if step (state s) = CHARACTER then character (state s) \<noteq> None
      else if step (state s) = PLACE then place (state s) \<noteq> None
      else time (state s) \<noteq> None)"

definition options_shown :: "Wizard \<Rightarrow> bool" where
  "options_shown s = (on_input_step s \<and> \<not> isLoading s \<and> \<not> hasValue s \<and> mode s = Options)"

definition confirmation_shown :: "Wizard \<Rightarrow> bool" where
  "confirmation_shown s =
     (on_input_step s \<and> \<not> isLoading s \<and> \<not> hasValue s \<and> mode s = Confirmation
      \<and> autoSelectCandidate s \<noteq> None)"

text \<open>The text field is on screen also while \<open>isLoading\<close> is set.\<close>

definition input_shown :: "Wizard \<Rightarrow> bool" where
  "input_shown s = (on_input_step s \<and> \<not> hasValue s \<and> mode s \<noteq> Confirmation)"

definition value_buttons_shown :: "Wizard \<Rightarrow> bool" where
  "value_buttons_shown s = (on_input_step s \<and> hasValue s)"

text \<open>
  The events of a wizard session: the age buttons; a tick of the interval (with the flag
  described above); pointer, keyboard or touch activity on the window; typing into the
  text field, the Enter key in it and the Done button; a click on the option card at an
  index; No and Yes of the confirmation card; the Change and Next buttons; a transcribed
  fragment from the voice input; typing into the plot field; the button that generates
  the story; closing the badge notification; and the answer to the pending request at a
  position. Leaving the wizard ends the session. A badge notification covers the screen
  until it is closed; the model does not rely on that and lets every event through.
\<close>

datatype event =
    AgeClick AgeGroup
  | Tick bool
  | Activity
  | InputChange string
  | InputEnter
  | DoneClick
  | OptionClick nat
  | ConfirmNo
  | ConfirmYes
  | ChangeClick
  | NextClick
  | Voice string
  | PlotChange string
  | GenerateClick
  | BadgeClose
  | Settle nat

text \<open>
  An event whose control is not on screen, or whose listener is not installed, does
  nothing. A click runs the handler of the latest render; a tick and window activity run
  the closures of the render in which the effect last ran. The button that generates the
  story is disabled while \<open>isLoading\<close> is set.
\<close>

fun fire :: "World \<Rightarrow> Component \<Rightarrow> event \<Rightarrow> Component" where
  "fire w c (AgeClick age) =
     (if step (state (cur c)) = AGE_SELECTION
      then batch (\<lambda>s. s\<lparr>state := (state s)\<lparr>ageGroup := Some age, step := CHARACTER\<rparr>\<rparr>) c
      else c)"
| "fire w c (Tick eager) = (if listening c then tick eager w c else c)"
| "fire w c Activity = (if listening c then batch (activity (eff c)) c else c)"
| "fire w c (InputChange v) =
     (if input_shown (cur c) then batch (\<lambda>s. s\<lparr>inactivityTimer := 0, tempInput := v\<rparr>) c else c)"
| "fire w c InputEnter =
     (if input_shown (cur c)
      then start (handleSelection w (cur c) (tempInput (cur c)) None) c else c)"
| "fire w c DoneClick =
     (if input_shown (cur c) \<and> tempInput (cur c) \<noteq> []
      then start (handleSelection w (cur c) (tempInput (cur c)) None) c else c)"
| "fire w c (OptionClick idx) =
     (if options_shown (cur c)
      then (case at (suggestedOptions (cur c)) idx of
              Some opt \<Rightarrow> start (handleSelection w (cur c) (choice_of opt) (pre_image opt)) c
            | None \<Rightarrow> c)
      else c)"
| "fire w c ConfirmNo =
     (if confirmation_shown (cur c) then batch (\<lambda>s. s\<lparr>mode := Options\<rparr>) c else c)"
| "fire w c ConfirmYes =
     (if confirmation_shown (cur c)
      then (case autoSelectCandidate (cur c) of
              Some cand \<Rightarrow> start (handleSelection w (cur c) (choice_of cand) (pre_image cand)) c
            | None \<Rightarrow> c)
      else c)"
| "fire w c ChangeClick =
     (if value_buttons_shown (cur c)
      then batch (\<lambda>s. if step (state (cur c)) = CHARACTER then s\<lparr>state := (state s)\<lparr>character := None\<rparr>\<rparr>
                      else if step (state (cur c)) = PLACE then s\<lparr>state := (state s)\<lparr>place := None\<rparr>\<rparr>
                      else s\<lparr>state := (state s)\<lparr>time := None\<rparr>\<rparr>) c
      else c)"
| "fire w c NextClick =
     (if value_buttons_shown (cur c) then batch (confirmStep (cur c)) c else c)"
| "fire w c (Voice fragment) =
     (if input_shown (cur c) \<or> step (state (cur c)) = PLOT
      then batch (handleVoiceInput (cur c) fragment) c else c)"
| "fire w c (PlotChange v) =
     (if step (state (cur c)) = PLOT then batch (\<lambda>s. s\<lparr>state := (state s)\<lparr>plotInput := v\<rparr>\<rparr>) c
      else c)"
| "fire w c GenerateClick =
     (if step (state (cur c)) = PLOT \<and> \<not> isLoading (cur c)
      then (case generatePage w (cur c) of Some tk \<Rightarrow> start tk c | None \<Rightarrow> c)
      else c)"
| "fire w c BadgeClose =
     (if newBadge (cur c) \<noteq> None then batch (\<lambda>s. s\<lparr>newBadge := None\<rparr>) c else c)"
| "fire w c (Settle k) = settle k c"

text \<open>
  A session: events in order, each with what the world answers to the requests that it
  starts.
\<close>

definition run :: "Component \<Rightarrow> (World \<times> event) list \<Rightarrow> Component" where
  "run c evs = foldl (\<lambda>c (w, e). fire w c e) c evs"

subsection \<open>Notions used in the theorems\<close>

text \<open>
  A component is rendered when the closures of the effect are those of a render with
  the current dependencies. Every event leaves the component rendered.
\<close>

definition rendered :: "Component \<Rightarrow> bool" where
  "rendered c = (deps (eff c) = deps (cur c))"

text \<open>The three guards of the interval callback, for the tick that comes next.\<close>

definition escalates :: "Component \<Rightarrow> bool" where
  "escalates c =
     (let t = inactivityTimer (cur c) + 1; r = eff c in
      (t = 30 \<and> mode r = Input \<and> tempInput r = [])
      \<or> (t = 60 \<and> mode r = Options)
      \<or> (t = 70 \<and> mode r = Confirmation))"

text \<open>The events of a session in which the user does nothing: ticks and answers.\<close>

fun is_idle :: "event \<Rightarrow> bool" where
  "is_idle (Tick eager) = True"
| "is_idle (Settle k) = True"
| "is_idle ev = False"

text \<open>
  A handler swallows its failures when no exception leaves it: neither its task nor any
  task behind it is an uncaught exception.
\<close>

fun caught :: "task \<Rightarrow> bool" where
  "caught (Task f ts) = (\<forall>t \<in> set ts. caught t)"
| "caught (Uncaught e) = False"

text \<open>A property of every batch of writes of a task and of the tasks behind it.\<close>

fun task_all :: "((Wizard \<Rightarrow> Wizard) \<Rightarrow> bool) \<Rightarrow> task \<Rightarrow> bool" where
  "task_all P (Task f ts) = (P f \<and> (\<forall>t \<in> set ts. task_all P t))"
| "task_all P (Uncaught e) = True"

text \<open>
  What the writes of a pending task can be. They leave the mode and the idle counter
  alone (\<open>calm\<close>). They leave the step, the badge shown and the log of issued badges
  alone (\<open>badge_quiet\<close>), with one exception, the task that ends a successful generation
  of the story (\<open>finishing\<close>), which is only ever pending from the plot step on.
\<close>

definition calm :: "(Wizard \<Rightarrow> Wizard) \<Rightarrow> bool" where
  "calm f = (\<forall>s. mode (f s) = mode s \<and> inactivityTimer (f s) = inactivityTimer s)"

definition badge_quiet :: "(Wizard \<Rightarrow> Wizard) \<Rightarrow> bool" where
  "badge_quiet f =
     (\<forall>s. step (state (f s)) = step (state s) \<and> badgeLog (f s) = badgeLog s
          \<and> newBadge (f s) = newBadge s)"

definition finishing :: "(Wizard \<Rightarrow> Wizard) \<Rightarrow> bool" where
  "finishing f =
     (\<forall>s. step (state (f s)) = PREVIEW \<and> badgeLog (f s) = master_story # badgeLog s
          \<and> newBadge (f s) = Some master_story)"

definition steady :: "WizardStep \<Rightarrow> (Wizard \<Rightarrow> Wizard) \<Rightarrow> bool" where
  "steady k f = (calm f \<and> (badge_quiet f \<or> (finishing f \<and> PLOT \<le> k)))"

text \<open>
  The invariant of a session: the step is one of the six, each of the two badges of the
  collection steps is in the log once when its step is behind and not at all before, and
  the pending tasks are as described.
\<close>

definition session_inv :: "Component \<Rightarrow> bool" where
  "session_inv c =
     (step (state (cur c)) \<le> PREVIEW
      \<and> count_list (badgeLog (cur c)) char_creator
            = (if CHARACTER < step (state (cur c)) then 1 else 0)
      \<and> count_list (badgeLog (cur c)) world_builder
            = (if PLACE < step (state (cur c)) then 1 else 0)
      \<and> (\<forall>t \<in> set (pending c). task_all (steady (step (state (cur c)))) t))"

text \<open>
  The log follows the hook \<open>newBadge\<close>: between two states either nothing is logged, and
  the badge shown stays or is closed, or the badge now shown is the one entry added to
  the log.
\<close>

definition logged :: "Wizard \<Rightarrow> Wizard \<Rightarrow> bool" where
  "logged s s' =
     ((badgeLog s' = badgeLog s \<and> (newBadge s' = newBadge s \<or> newBadge s' = None))
      \<or> (case newBadge s' of Some b \<Rightarrow> badgeLog s' = b # badgeLog s | None \<Rightarrow> False))"




section \<open>Sample inputs\<close>

text \<open>Concrete stories, worlds and sessions at which the theorems below are instantiated.\<close>

definition book :: Story where
  "book =
     \<lparr>title = ''Fox'',
      pages = [\<lparr>StoryPage.text' = ''One'', imageUrl = ''a'', imagePrompt = None\<rparr>,
               \<lparr>StoryPage.text' = ''Two'', imageUrl = ''b'', imagePrompt = None\<rparr>]\<rparr>"

definition parse_elf :: "string \<Rightarrow> labels option" where
  "parse_elf x = (if x = ''[Elf]'' then Some (Labels [''Elf'']) else None)"

definition parse_scenes :: "string \<Rightarrow> parsed option" where
  "parse_scenes x =
     (if x = ''[null]'' then Some (Items [Item (Some ''Once'') None, NullItem])
      else if x = ''[{}]'' then Some (Items [Item None (Some ''a fox'')])
      else if x = ''{}'' then Some NotArray
      else None)"

definition fox_inputs :: StoryInputs where
  "fox_inputs =
     \<lparr>StoryInputs.character = ''Fox'', place = ''Wood'', time = ''Dawn'', plot = ''A walk''\<rparr>"

text \<open>
  A fragment of the built-in \<open>encodeURIComponent\<close>, right on texts of letters and spaces.
\<close>

definition encode_spaces :: "string \<Rightarrow> string" where
  "encode_spaces x = concat (map (\<lambda>ch. if ch = CHR '' '' then ''%20'' else [ch]) x)"

text \<open>A world in which every request succeeds: three suggestions, an image for each prompt.\<close>

definition fair :: World where
  "fair =
     \<lparr>encodeURIComponent = (\<lambda>x. Some (encode_spaces x)),
      parse_strings = (\<lambda>x. if x = ''[Cat,Dog,Owl]'' then Some (Labels [''Cat'', ''Dog'', ''Owl''])
                            else None),
      parse_story = parse_scenes,
      suggestions_reply = (\<lambda>context age. Resolved (Some ''[Cat,Dog,Owl]'')),
      image_reply = (\<lambda>prompt. Resolved (Some [Some (Some ''AAAA'')])),
      story_reply = (\<lambda>inp age. Resolved (Some ''[{}]''))\<rparr>"

text \<open>A world in which every request is rejected.\<close>

definition down :: World where
  "down =
     \<lparr>encodeURIComponent = (\<lambda>x. Some (encode_spaces x)),
      parse_strings = (\<lambda>x. None),
      parse_story = (\<lambda>x. None),
      suggestions_reply = (\<lambda>context age. Rejected),
      image_reply = (\<lambda>prompt. Rejected),
      story_reply = (\<lambda>inp age. Rejected)\<rparr>"

text \<open>
  A world in which the service suggests two labels and rejects every image request, and
  the second label cannot be encoded: its last character stands in for a lone surrogate,
  on which the built-in throws.
\<close>

definition torn :: World where
  "torn =
     \<lparr>encodeURIComponent = (\<lambda>x. if CHR 0xFF \<in> set x then None else Some (encode_spaces x)),
      parse_strings = (\<lambda>x. if x = ''[Cat,Elf]'' then Some (Labels [''Cat'', [CHR ''E'', CHR ''l'', CHR ''f'', CHR 0xFF]])
                            else None),
      parse_story = (\<lambda>x. None),
      suggestions_reply = (\<lambda>context age. Resolved (Some ''[Cat,Elf]'')),
      image_reply = (\<lambda>prompt. Rejected),
      story_reply = (\<lambda>inp age. Rejected)\<rparr>"

text \<open>
  A world like \<open>fair\<close> in which the reply to the suggestion request is valid JSON but not
  an array.
\<close>

definition odd :: World where
  "odd = fair\<lparr>parse_strings := (\<lambda>x. if x = ''{}'' then Some NotAnArray else None),
              suggestions_reply := (\<lambda>context age. Resolved (Some ''{}''))\<rparr>"

text \<open>\<open>n\<close> seconds without any other event, and \<open>n\<close> answers, each to the oldest request.\<close>

definition idle :: "World \<Rightarrow> bool \<Rightarrow> nat \<Rightarrow> (World \<times> event) list" where
  "idle w eager n = replicate n (w, Tick eager)"

definition answers :: "World \<Rightarrow> nat \<Rightarrow> (World \<times> event) list" where
  "answers w n = replicate n (w, Settle 0)"

text \<open>A session that picks an age group and then stays idle for \<open>n\<close> seconds.\<close>

definition idle_session :: "bool \<Rightarrow> nat \<Rightarrow> Component" where
  "idle_session eager n = run (mount 0) ((fair, AgeClick TODDLER) # idle fair eager n)"

text \<open>
  A session that stays idle until the options are offered, receives the three suggestions
  and their images, and stays idle for \<open>n\<close> more seconds.
\<close>

definition offered_session :: "bool \<Rightarrow> nat \<Rightarrow> Component" where
  "offered_session eager n =
     run (mount 0)
       ((fair, AgeClick TODDLER) # idle fair eager 30 @ answers fair 4 @ idle fair eager n)"

text \<open>
  A session that types and commits a character, receives its image, then stays idle for
  \<open>n\<close> seconds in front of the Change and Next buttons.
\<close>

definition fox_session :: "nat \<Rightarrow> Component" where
  "fox_session n =
     run (mount 0)
       ([(fair, AgeClick TODDLER), (fair, InputChange ''fox''), (fair, DoneClick),
         (fair, Settle 0)]
        @ idle fair True n)"

text \<open>
  A session that stays idle until the confirmation card is shown, declines it after 65
  seconds and stays idle for ten more.
\<close>

definition declined_session :: Component where
  "declined_session =
     run (mount 0)
       ((fair, AgeClick TODDLER) # idle fair True 30 @ answers fair 4 @ idle fair True 35
        @ (fair, ConfirmNo) # idle fair True 10)"

text \<open>
  A session that confirms the character \<open>fox\<close>, closes the badge, and commits the place
  \<open>wood\<close>.
\<close>

definition wood_session :: Component where
  "wood_session =
     run (mount 0)
       (map (Pair fair)
          [AgeClick TODDLER, InputChange ''fox'', DoneClick, Settle 0, NextClick, BadgeClose,
           InputChange ''wood'', InputEnter, Settle 0])"



definition odd_session :: Component where
  "odd_session = run (mount 0) ((odd, AgeClick TODDLER) # idle odd True 30 @ answers odd 1)"

text \<open>A session that has picked an age group and nothing else.\<close>

definition aged :: Component where
  "aged = run (mount 0) [(down, AgeClick TODDLER)]"

text \<open>
  A session in the world where requests fail that collects character, place and time,
  types a plot with a character on which the built-in throws, and generates the story:
  the segments are the fallback made of the plot, and the image of the one page cannot
  even get its placeholder.
\<close>

definition failed_generation :: Component where
  "failed_generation =
     run (mount 0)
       (map (Pair torn)
          [AgeClick TODDLER, InputChange ''fox'', InputEnter, Settle 0, NextClick, BadgeClose,
           InputChange ''wood'', InputEnter, Settle 0, NextClick, BadgeClose,
           InputChange ''dawn'', InputEnter, NextClick, PlotChange [CHR ''x'', CHR 0xFF],
           GenerateClick, Settle 0])"

text \<open>
  A session in which the Enter key is pressed twice on the character, and the image
  request of the second press is answered late, while the story is being generated: the
  button that generates the story is enabled again and pressed a second time, and then
  both generations are answered.
\<close>

definition hasty_events :: "(World \<times> event) list" where
  "hasty_events =
     map (Pair fair)
       [AgeClick TODDLER, InputChange ''fox'', InputEnter, InputEnter, Settle 0,
        NextClick, BadgeClose, InputChange ''wood'', InputEnter, Settle 1,
        NextClick, BadgeClose, InputChange ''dawn'', InputEnter,
        NextClick, GenerateClick, Settle 0, GenerateClick]"

definition hasty_session :: "nat \<Rightarrow> Component" where
  "hasty_session n = run (mount 0) (hasty_events @ answers fair n)"

section \<open>The story reader stays on a page\<close>

lemma handleNext_range:
  "0 \<le> currentPage rd \<Longrightarrow> currentPage rd \<le> int (length (pages story)) - 1 \<Longrightarrow>
   0 \<le> currentPage (handleNext story rd)
   \<and> currentPage (handleNext story rd) \<le> int (length (pages story)) - 1"
  by (simp add: handleNext_def stopAudio_def Let_def)

lemma handlePrev_range:
  "0 \<le> currentPage rd \<Longrightarrow> currentPage rd \<le> int (length (pages story)) - 1 \<Longrightarrow>
   0 \<le> currentPage (handlePrev story rd)
   \<and> currentPage (handlePrev story rd) \<le> int (length (pages story)) - 1"
  by (auto simp add: handlePrev_def stopAudio_def Let_def)

lemma reader_run_snoc:
  "reader_run story (evs @ [ev]) = reader_step story (reader_run story evs) ev"
  by (simp add: reader_run_def)

text \<open>
  Claim C9. In the story reader, for every story with a non-empty list of pages, the
  current page index is a valid index after every sequence of Next and Prev clicks:
  it starts at 0, \<open>handleNext\<close> never moves it past the last page and \<open>handlePrev\<close> never
  moves it below 0.
\<close>

theorem reader_page_in_range:
  assumes "pages story \<noteq> []"
  shows "0 \<le> currentPage (reader_run story evs)
         \<and> currentPage (reader_run story evs) \<le> int (length (pages story)) - 1"
proof (induction evs rule: rev_induct)
  case Nil
  from assms have "0 < length (pages story)" by simp
  then show ?case by (simp add: reader_run_def reader_init_def)
next
  case (snoc ev evs)
  show ?case
  proof (cases ev)
    case Next
    with snoc handleNext_range [of "reader_run story evs" story] show ?thesis
      by (simp add: reader_run_snoc)
  next
    case Prev
    with snoc handlePrev_range [of "reader_run story evs" story] show ?thesis
      by (simp add: reader_run_snoc)
  qed
qed

theorem reader_page_in_range_witness:
  "pages book \<noteq> []
   \<and> 0 \<le> currentPage (reader_run book [Next, Next, Next])
   \<and> currentPage (reader_run book [Next, Next, Next]) \<le> 1
   \<and> currentPage (reader_run book [Next, Next, Next]) = 1
   \<and> currentPage (reader_run book [Next, Prev, Prev]) = 0"
proof -
  have ne: "pages book \<noteq> []" by (simp add: book_def)
  have last: "int (length (pages book)) - 1 = 1" by (simp add: book_def)
  have "currentPage (reader_run book [Next, Next, Next]) = 1"
    by (simp add: reader_run_def reader_init_def handleNext_def stopAudio_def book_def)
  moreover have "currentPage (reader_run book [Next, Prev, Prev]) = 0"
    by (simp add: reader_run_def reader_init_def handleNext_def handlePrev_def stopAudio_def
        book_def)
  ultimately show ?thesis
    using ne last reader_page_in_range [OF ne, of "[Next, Next, Next]"] by simp
qed

section \<open>A blank voice fragment changes no text\<close>

lemma trim_blank:
  assumes "\<forall>ch \<in> set fragment. is_space ch"
  shows "trim fragment = []"
proof -
  from assms have d: "dropWhile is_space fragment = []"
    by (induction fragment) auto
  show ?thesis unfolding trim_def d by simp
qed

text \<open>
  Claim C10. Appending a voice fragment that consists of white space only is the
  identity on the target text: \<open>appendText\<close> returns the current text, and
  \<open>handleVoiceInput\<close> leaves both the plot input and the temporary free-text input as they
  were, on every step.
\<close>

theorem voice_blank_fragment_identity:
  assumes "\<forall>ch \<in> set fragment. is_space ch"
  shows "appendText current fragment = current
         \<and> plotInput (state (handleVoiceInput r fragment s)) = plotInput (state s)
         \<and> tempInput (handleVoiceInput r fragment s) = tempInput s"
  using trim_blank [OF assms] by (simp add: appendText_def handleVoiceInput_def Let_def)

theorem voice_blank_fragment_identity_witness:
  "is_space (CHR 0x20) \<and> is_space (CHR 0x09) \<and> is_space (CHR 0xA0)
   \<and> appendText ''A fox'' [CHR 0x20, CHR 0x09, CHR 0xA0] = ''A fox''
   \<and> tempInput (handleVoiceInput (wizard_init 0) [CHR 0x20, CHR 0x09, CHR 0xA0]
                  ((wizard_init 0)\<lparr>tempInput := ''A fox''\<rparr>)) = ''A fox''
   \<and> appendText ''A fox'' '' ran '' = ''A fox ran''"
proof -
  have sp: "is_space (CHR 0x20) \<and> is_space (CHR 0x09) \<and> is_space (CHR 0xA0)"
    by (simp add: is_space_def)
  then have blank: "\<forall>ch \<in> set [CHR 0x20, CHR 0x09, CHR 0xA0]. is_space ch" by simp
  have "appendText ''A fox'' '' ran '' = ''A fox ran''"
    by (simp add: appendText_def trim_def is_space_def)
  then show ?thesis
    using sp
      voice_blank_fragment_identity [OF blank, of "''A fox''" "wizard_init 0"
        "(wizard_init 0)\<lparr>tempInput := ''A fox''\<rparr>"]
    by simp
qed

section \<open>Fallbacks of the text generation functions\<close>

lemma segments_of_eq:
  "segments_of inp its =
     (if NullItem \<in> set its then Inl TypeError
      else Inr (map (\<lambda>it. \<lparr>Segment.text' = or_else (storyText it) ''Story continues...'',
                            imagePrompt = or_else (imageDescription it) (in_place inp)\<rparr>) its))"
proof (induction its)
  case Nil
  then show ?case by simp
next
  case (Cons it its)
  then show ?case by (cases it) auto
qed

text \<open>
  Claim C6. Each text generation function returns what it computes from the response of
  the service or, on any failure (the request is rejected, the text is not JSON, an
  element of the array is null), a fallback that does not depend on the failing response:
  the sentence \<open>Something magical happened...\<close> for \<open>generateText\<close>, the three labels
  \<open>A funny cat\<close>, \<open>A big bear\<close>, \<open>A flying fish\<close> for \<open>generateSuggestions\<close>, and the single
  segment made of the caller's plot for \<open>generateStorySegments\<close>. Without an exception,
  a response without text gives the labels \<open>Option 1\<close> to \<open>Option 3\<close>, and a story response
  that is not an array gives one segment made of the caller's inputs. What
  \<open>generateSuggestions\<close> obtains from a text that parses is returned as it is, array or not.
\<close>

theorem generation_fallbacks:
  "generateText Rejected = ''Something magical happened...''
   \<and> generateText (Resolved t0) = or_else t0 []
   \<and> generateSuggestions parse Rejected
        = Labels [''A funny cat'', ''A big bear'', ''A flying fish'']
   \<and> (s1 \<noteq> [] \<longrightarrow> parse s1 = None \<longrightarrow>
        generateSuggestions parse (Resolved (Some s1))
          = Labels [''A funny cat'', ''A big bear'', ''A flying fish''])
   \<and> (s2 \<noteq> [] \<longrightarrow> parse s2 = Some xs \<longrightarrow>
        generateSuggestions parse (Resolved (Some s2)) = xs)
   \<and> generateSuggestions parse (Resolved None)
        = Labels [''Option 1'', ''Option 2'', ''Option 3'']
   \<and> generateSuggestions parse (Resolved (Some []))
        = Labels [''Option 1'', ''Option 2'', ''Option 3'']
   \<and> generateStorySegments sparse inp Rejected
        = [\<lparr>Segment.text' = plot inp, imagePrompt = plot inp\<rparr>]
   \<and> (sparse (trim (strip_fences (or_else t1 ''[]''))) = None \<longrightarrow>
        generateStorySegments sparse inp (Resolved t1)
          = [\<lparr>Segment.text' = plot inp, imagePrompt = plot inp\<rparr>])
   \<and> (sparse (trim (strip_fences (or_else t2 ''[]''))) = Some (Items its2) \<longrightarrow>
        NullItem \<in> set its2 \<longrightarrow>
        generateStorySegments sparse inp (Resolved t2)
          = [\<lparr>Segment.text' = plot inp, imagePrompt = plot inp\<rparr>])
   \<and> (sparse (trim (strip_fences (or_else t3 ''[]''))) = Some (Items its3) \<longrightarrow>
        NullItem \<notin> set its3 \<longrightarrow>
        generateStorySegments sparse inp (Resolved t3)
          = map (\<lambda>it. \<lparr>Segment.text' = or_else (storyText it) ''Story continues...'',
                        imagePrompt = or_else (imageDescription it)
                          (StoryInputs.character inp @ '' in '' @ StoryInputs.place inp)\<rparr>) its3)
   \<and> (sparse (trim (strip_fences (or_else t4 ''[]''))) = Some NotArray \<longrightarrow>
        generateStorySegments sparse inp (Resolved t4)
          = [\<lparr>Segment.text' = plot inp,
               imagePrompt = StoryInputs.character inp @ '' in '' @ StoryInputs.place inp\<rparr>])"
  by (simp add: generateText_def generateSuggestions_def suggestions_request_def
      generateStorySegments_def segments_request_def segments_of_eq in_place_def)

theorem generation_fallbacks_witness:
  "generateSuggestions parse_elf (Resolved (Some ''oops''))
     = Labels [''A funny cat'', ''A big bear'', ''A flying fish'']
   \<and> generateSuggestions parse_elf (Resolved (Some ''[Elf]'')) = Labels [''Elf'']
   \<and> generateStorySegments parse_scenes fox_inputs (Resolved (Some ''so it began''))
        = [\<lparr>Segment.text' = ''A walk'', imagePrompt = ''A walk''\<rparr>]
   \<and> generateStorySegments parse_scenes fox_inputs (Resolved (Some '' [null] ''))
        = [\<lparr>Segment.text' = ''A walk'', imagePrompt = ''A walk''\<rparr>]
   \<and> generateStorySegments parse_scenes fox_inputs (Resolved (Some ''```json[{}]```''))
        = [\<lparr>Segment.text' = ''Story continues...'', imagePrompt = ''a fox''\<rparr>]
   \<and> generateStorySegments parse_scenes fox_inputs (Resolved (Some ''{}''))
        = [\<lparr>Segment.text' = ''A walk'', imagePrompt = ''Fox in Wood''\<rparr>]"
proof -
  have c1: "trim (strip_fences (or_else (Some ''so it began'') ''[]'')) = ''so it began''"
    by (simp add: or_else_def trim_def is_space_def)
  have c2: "trim (strip_fences (or_else (Some '' [null] '') ''[]'')) = ''[null]''"
    by (simp add: or_else_def trim_def is_space_def)
  have c3: "trim (strip_fences (or_else (Some ''```json[{}]```'') ''[]'')) = ''[{}]''"
    by (simp add: or_else_def trim_def is_space_def)
  have c4: "trim (strip_fences (or_else (Some ''{}'') ''[]'')) = ''{}''"
    by (simp add: or_else_def trim_def is_space_def)
  show ?thesis
    using generation_fallbacks [of None parse_elf "''oops''" "''[Elf]''" "Labels [''Elf'']"
        parse_scenes fox_inputs "Some ''so it began''" "Some '' [null] ''"
        "[Item (Some ''Once'') None, NullItem]" "Some ''```json[{}]```''"
        "[Item None (Some ''a fox'')]" "Some ''{}''"]
    unfolding c1 c2 c3 c4
    by (simp add: parse_elf_def parse_scenes_def fox_inputs_def or_else_def)
qed

section \<open>Renders keep the state\<close>

lemma render_fields [simp]:
  "state (cur (render c)) = state (cur c)"
  "mode (cur (render c)) = mode (cur c)"
  "isLoading (cur (render c)) = isLoading (cur c)"
  "inactivityTimer (cur (render c)) = inactivityTimer (cur c)"
  "suggestedOptions (cur (render c)) = suggestedOptions (cur c)"
  "autoSelectCandidate (cur (render c)) = autoSelectCandidate (cur c)"
  "currentPoints (cur (render c)) = currentPoints (cur c)"
  "newBadge (cur (render c)) = newBadge (cur c)"
  "badgeLog (cur (render c)) = badgeLog (cur c)"
  "pending (render c) = pending c"
  by (simp_all add: render_def Let_def)

lemma batch_pending [simp]: "pending (batch f c) = pending c"
  by (simp add: batch_def)

lemma rendered_render [simp]: "rendered (render c)"
  by (simp add: rendered_def render_def Let_def deps_def)

lemma render_rendered: "rendered c \<Longrightarrow> render c = c"
  by (simp add: rendered_def render_def Let_def)

lemma rendered_batch [simp]: "rendered (batch f c)"
  by (simp add: batch_def)

lemma rendered_pending [simp]: "rendered (c\<lparr>pending := ps\<rparr>) = rendered c"
  by (simp add: rendered_def)

lemma rendered_start [simp]: "rendered (start tk c)"
  by (simp add: start_def)

lemma rendered_settle: "rendered c \<Longrightarrow> rendered (settle k c)"
  by (simp add: settle_def Let_def split: task.splits)

lemma rendered_tick [simp]: "rendered (tick eager w c)"
  by (simp add: tick_def Let_def)

lemma rendered_fire: "rendered c \<Longrightarrow> rendered (fire w c ev)"
  by (cases ev) (simp_all add: rendered_settle split: option.splits)

lemma run_snoc: "run c (evs @ [(w, ev)]) = fire w (run c evs) ev"
  by (simp add: run_def)

lemma rendered_mount: "rendered (mount p)"
  by (simp add: rendered_def mount_def)

lemma rendered_run: "rendered c \<Longrightarrow> rendered (run c evs)"
proof (induction evs rule: rev_induct)
  case Nil
  then show ?case by (simp add: run_def)
next
  case (snoc x evs)
  then show ?case by (cases x) (simp add: run_snoc rendered_fire)
qed

section \<open>Activity on the window\<close>

text \<open>
  Claim C3. In every state of a session in which the activity listener is installed,
  detected activity (mousemove, keydown, touchstart: one listener for the three) sets the
  idle counter to 0, and changes nothing else, when the interaction mode is \<open>input\<close>; in
  the modes \<open>options\<close> and \<open>confirmation\<close> it leaves the whole state, and so the counter,
  unchanged.
\<close>

theorem activity_resets_only_in_input:
  assumes "c = run (mount p) evs" and "listening c"
  shows "(mode (cur c) = Input \<longrightarrow> cur (fire w c Activity) = (cur c)\<lparr>inactivityTimer := 0\<rparr>)
         \<and> (mode (cur c) \<noteq> Input \<longrightarrow> cur (fire w c Activity) = cur c)"
proof -
  have r: "rendered c" using assms(1) rendered_run [OF rendered_mount] by simp
  then have m: "mode (eff c) = mode (cur c)" by (simp add: rendered_def deps_def)
  have "rendered (c\<lparr>cur := (cur c)\<lparr>inactivityTimer := 0\<rparr>\<rparr>)"
    using r by (simp add: rendered_def deps_def)
  then have "render (c\<lparr>cur := (cur c)\<lparr>inactivityTimer := 0\<rparr>\<rparr>)
               = c\<lparr>cur := (cur c)\<lparr>inactivityTimer := 0\<rparr>\<rparr>"
    by (rule render_rendered)
  moreover have "render c = c" using r by (rule render_rendered)
  ultimately show ?thesis using assms(2) m
    by (simp add: batch_def activity_def)
qed

theorem activity_resets_only_in_input_witness:
  "listening (idle_session True 5) \<and> mode (cur (idle_session True 5)) = Input
   \<and> inactivityTimer (cur (idle_session True 5)) = 5
   \<and> inactivityTimer (cur (fire fair (idle_session True 5) Activity)) = 0
   \<and> listening (idle_session True 35) \<and> mode (cur (idle_session True 35)) = Options
   \<and> inactivityTimer (cur (fire fair (idle_session True 35) Activity)) = 35"
proof -
  have a1: "listening (idle_session True 5)" by code_simp
  have a2: "mode (cur (idle_session True 5)) = Input" by code_simp
  have a3: "inactivityTimer (cur (idle_session True 5)) = 5" by code_simp
  have b1: "listening (idle_session True 35)" by code_simp
  have b2: "mode (cur (idle_session True 35)) = Options" by code_simp
  have b3: "inactivityTimer (cur (idle_session True 35)) = 35" by code_simp
  have "cur (fire fair (idle_session True 5) Activity)
          = (cur (idle_session True 5))\<lparr>inactivityTimer := 0\<rparr>"
    using activity_resets_only_in_input [OF idle_session_def a1, of fair] a2 by simp
  moreover have "cur (fire fair (idle_session True 35) Activity) = cur (idle_session True 35)"
    using activity_resets_only_in_input [OF idle_session_def b1, of fair] b2 by simp
  ultimately show ?thesis using a1 a2 a3 b1 b2 b3 by simp
qed

section \<open>Confirming a step\<close>

lemma confirmStep_mode_timer:
  "mode (confirmStep r s) = Input \<and> inactivityTimer (confirmStep r s) = inactivityTimer s"
  by (simp add: confirmStep_def awardPoints_def checkBadges_def setNewBadge_def Let_def)

text \<open>
  Claim C2. Every operation that sets the interaction mode to \<open>input\<close> is meant to set the
  idle counter to 0 as well. \<open>handleSelection\<close> does; \<open>confirmStep\<close> sets the mode to \<open>input\<close>
  and leaves the counter as it is. A session that commits a character and waits 31
  seconds before pressing Next is in mode \<open>options\<close> with the counter at 31; Next enters
  \<open>input\<close> on the place step with the counter still at 31, and in the following idle
  minute no option is ever offered.
\<close>

theorem confirmStep_keeps_idle_counter:
  "mode (confirmStep r s) = Input
   \<and> inactivityTimer (confirmStep r s) = inactivityTimer s
   \<and> mode (cur (fox_session 31)) = Options
   \<and> value_buttons_shown (cur (fox_session 31))
   \<and> step (state (cur (fire fair (fox_session 31) NextClick))) = PLACE
   \<and> mode (cur (fire fair (fox_session 31) NextClick)) = Input
   \<and> inactivityTimer (cur (fire fair (fox_session 31) NextClick)) = 31
   \<and> mode (cur (run (fire fair (fox_session 31) NextClick) (idle fair True 60))) = Input
   \<and> suggestedOptions (cur (run (fire fair (fox_session 31) NextClick) (idle fair True 60))) = []"
proof -
  have "mode (cur (fox_session 31)) = Options" by code_simp
  moreover have "value_buttons_shown (cur (fox_session 31))" by code_simp
  moreover have "step (state (cur (fire fair (fox_session 31) NextClick))) = PLACE" by code_simp
  moreover have "mode (cur (fire fair (fox_session 31) NextClick)) = Input" by code_simp
  moreover have "inactivityTimer (cur (fire fair (fox_session 31) NextClick)) = 31" by code_simp
  moreover have
    "mode (cur (run (fire fair (fox_session 31) NextClick) (idle fair True 60))) = Input"
    by code_simp
  moreover have
    "suggestedOptions (cur (run (fire fair (fox_session 31) NextClick) (idle fair True 60))) = []"
    by code_simp
  ultimately show ?thesis using confirmStep_mode_timer by simp
qed
section \<open>Pending tasks\<close>

lemma task_all_mono:
  assumes "task_all P t" and "\<And>f. P f \<Longrightarrow> Q f"
  shows "task_all Q t"
  using assms(1)
proof (induction t)
  case (Task f ts)
  then show ?case using assms(2) by auto
next
  case (Uncaught e)
  show ?case by simp
qed

lemma steady_mono: "steady k f \<Longrightarrow> k \<le> k' \<Longrightarrow> steady k' f"
  by (auto simp add: steady_def)

lemma steady_tasks_mono:
  assumes "\<forall>t \<in> set ts. task_all (steady k) t" and "k \<le> k'"
  shows "\<forall>t \<in> set ts. task_all (steady k') t"
  using assms task_all_mono [of "steady k" _ "steady k'"] steady_mono [of k _ k'] by blast

lemma steady_calm:
  assumes "\<forall>t \<in> set ts. task_all (steady k) t"
  shows "\<forall>t \<in> set ts. task_all calm t"
  using assms task_all_mono [of "steady k" _ calm] by (auto simp add: steady_def)

lemma badge_quiet_basic:
  "badge_quiet selection_begin" "badge_quiet selection_finally"
  "badge_quiet (set_character choice img)" "badge_quiet (set_place choice img)"
  "badge_quiet (set_time choice)"
  "badge_quiet (options_loaded texts)" "badge_quiet (option_settled index outcome)"
  "badge_quiet (handleShowConfirmation r)" "badge_quiet (handleVoiceInput r fragment)"
  "badge_quiet (activity r)" "badge_quiet (\<lambda>s. s)"
  "badge_quiet (\<lambda>s. s\<lparr>mode := m\<rparr>)" "badge_quiet (\<lambda>s. s\<lparr>isLoading := b\<rparr>)"
  "badge_quiet (\<lambda>s. s\<lparr>inactivityTimer := n\<rparr>)"
  "badge_quiet (\<lambda>s. s\<lparr>inactivityTimer := n, tempInput := v\<rparr>)"
  "badge_quiet (generate_settled (Inl e))"
  by (simp_all add: badge_quiet_def selection_begin_def selection_finally_def
      set_character_def set_place_def set_time_def options_loaded_def option_settled_def
      handleShowConfirmation_def handleVoiceInput_def activity_def generate_settled_def
      Let_def split: sum.splits)

lemma calm_basic:
  "calm (options_loaded texts)" "calm (option_settled index outcome)"
  "calm (generate_settled oc)" "calm selection_finally"
  "calm (set_character choice img)" "calm (set_place choice img)"
  by (simp_all add: calm_def options_loaded_def option_settled_def generate_settled_def
      selection_finally_def set_character_def set_place_def awardPoints_def setNewBadge_def
      Let_def split: sum.splits)

lemma finishing_generate: "finishing (generate_settled (Inr newPages))"
  by (simp add: finishing_def generate_settled_def awardPoints_def setNewBadge_def Let_def)

lemma steady_generate: "PLOT \<le> k \<Longrightarrow> steady k (generate_settled outcome)"
  using finishing_generate badge_quiet_basic(16) calm_basic(3)
  by (cases outcome) (simp_all add: steady_def)

lemma steady_basic:
  "steady k (options_loaded texts)" "steady k (option_settled index outcome)"
  by (simp_all add: steady_def calm_basic badge_quiet_basic)

lemma select_pictured_tasks:
  assumes "\<And>img. badge_quiet (put img)" and "\<And>img. calm (put img)"
  shows "badge_quiet (writes (select_pictured w put prompt pre))
         \<and> (\<forall>t \<in> set (awaited (select_pictured w put prompt pre)). task_all (steady k) t)"
proof -
  have a: "badge_quiet (\<lambda>s. selection_finally (put img (selection_begin s)))" for img
    using assms(1) [of img]
    by (simp add: badge_quiet_def selection_begin_def selection_finally_def)
  have b: "steady k (\<lambda>s. selection_finally
                            (case await_image w prompt of Inr url \<Rightarrow> put url s | Inl e \<Rightarrow> s))"
    using assms
    by (cases "await_image w prompt")
       (simp_all add: steady_def calm_def badge_quiet_def selection_finally_def)
  show ?thesis
    using a b badge_quiet_basic(1)
    by (simp add: select_pictured_def Let_def split: option.splits)
qed

lemma handleSelection_tasks:
  "badge_quiet (writes (handleSelection w r choice pre))
   \<and> (\<forall>t \<in> set (awaited (handleSelection w r choice pre)). task_all (steady k) t)"
proof -
  have "badge_quiet (\<lambda>s. selection_finally (set_time choice (selection_begin s)))"
    "badge_quiet (\<lambda>s. selection_finally (selection_begin s))"
    by (simp_all add: badge_quiet_def selection_begin_def selection_finally_def set_time_def)
  then show ?thesis
    using select_pictured_tasks [of "set_character choice", OF badge_quiet_basic(3) calm_basic(5)]
      select_pictured_tasks [of "set_place choice", OF badge_quiet_basic(4) calm_basic(6)]
    by (simp add: handleSelection_def)
qed

lemma handleAutoSelect_tasks:
  "badge_quiet (writes (handleAutoSelect w r))
   \<and> (\<forall>t \<in> set (awaited (handleAutoSelect w r)). task_all (steady k) t)"
  using handleSelection_tasks by (simp add: handleAutoSelect_def split: option.splits)

lemma handleShowOptions_tasks:
  "badge_quiet (writes (handleShowOptions w r))
   \<and> (\<forall>t \<in> set (awaited (handleShowOptions w r)). task_all (steady k) t)"
  by (auto simp add: handleShowOptions_def badge_quiet_basic steady_basic split: labels.splits)

lemma generatePage_tasks:
  assumes "generatePage w r = Some tk" and "PLOT \<le> k"
  shows "badge_quiet (writes tk) \<and> (\<forall>t \<in> set (awaited tk). task_all (steady k) t)"
  using assms steady_generate [OF assms(2)]
  by (auto simp add: generatePage_def Let_def badge_quiet_basic
      split: option.splits if_splits)

lemma tick_calls_tasks:
  "\<forall>tk \<in> set (tick_calls w r t).
     badge_quiet (writes tk) \<and> (\<forall>t \<in> set (awaited tk). task_all (steady k) t)"
  using handleShowOptions_tasks [of w r k] handleAutoSelect_tasks [of w r k]
  by (auto simp add: tick_calls_def badge_quiet_basic)

lemma badge_quiet_fold:
  "\<forall>tk \<in> set calls. badge_quiet (writes tk) \<Longrightarrow> badge_quiet (fold writes calls)"
proof (induction calls)
  case Nil
  then show ?case by (simp add: badge_quiet_def)
next
  case (Cons tk calls)
  then show ?case by (simp add: badge_quiet_def)
qed


section \<open>Badges of a session\<close>

lemma badges_distinct:
  "char_creator \<noteq> world_builder" "char_creator \<noteq> master_story" "world_builder \<noteq> master_story"
  by (simp_all add: char_creator_def world_builder_def master_story_def)

lemma session_inv_start:
  assumes "session_inv c" and "badge_quiet (writes tk)"
    and "\<forall>t \<in> set (awaited tk). task_all (steady (step (state (cur c)))) t"
  shows "session_inv (start tk c) \<and> logged (cur c) (cur (start tk c))"
  using assms
  by (auto simp add: session_inv_def start_def batch_def badge_quiet_def logged_def)

lemma session_inv_batch:
  assumes "session_inv c" and "badge_quiet f"
  shows "session_inv (batch f c) \<and> logged (cur c) (cur (batch f c))"
  using assms
  by (auto simp add: session_inv_def batch_def badge_quiet_def logged_def)

lemma session_inv_settle:
  assumes "session_inv c"
  shows "session_inv (settle k c) \<and> logged (cur c) (cur (settle k c))"
proof (cases "k < length (pending c)")
  case False
  then show ?thesis using assms by (simp add: settle_def logged_def)
next
  case True
  let ?k = "step (state (cur c))"
  let ?others = "take k (pending c) @ drop (Suc k) (pending c)"
  have mem: "pending c ! k \<in> set (pending c)" using True by simp
  have pend: "\<forall>t \<in> set (pending c). task_all (steady ?k) t"
    using assms by (simp add: session_inv_def)
  have others: "\<forall>t \<in> set ?others. task_all (steady ?k) t"
    using pend by (auto dest: in_set_takeD in_set_dropD)
  show ?thesis
  proof (cases "pending c ! k")
    case (Uncaught e)
    then show ?thesis
      using True assms others by (simp add: settle_def session_inv_def logged_def)
  next
    case (Task f ts)
    from mem pend Task have f: "steady ?k f" and ts: "\<forall>t \<in> set ts. task_all (steady ?k) t"
      by auto
    have s: "settle k c = (batch f c)\<lparr>pending := ?others @ ts\<rparr>"
      using True Task by (simp add: settle_def)
    from f consider (quiet) "badge_quiet f" | (fin) "finishing f" "PLOT \<le> ?k"
      by (auto simp add: steady_def)
    then show ?thesis
    proof cases
      case quiet
      then show ?thesis
        using assms others ts
        by (auto simp add: s session_inv_def batch_def badge_quiet_def logged_def)
    next
      case fin
      have le: "?k \<le> PREVIEW" using assms by (simp add: session_inv_def)
      have a: "\<forall>t \<in> set (?others @ ts). task_all (steady PREVIEW) t"
        using steady_tasks_mono [OF others le] steady_tasks_mono [OF ts le] by auto
      show ?thesis
        using assms fin a badges_distinct
        by (auto simp add: s session_inv_def batch_def finishing_def logged_def)
    qed
  qed
qed

lemma session_inv_confirm:
  assumes "session_inv c" and "value_buttons_shown (cur c)"
  shows "session_inv (batch (confirmStep (cur c)) c)
         \<and> logged (cur c) (cur (batch (confirmStep (cur c)) c))"
proof -
  let ?k = "step (state (cur c))"
  from assms(2) have k: "?k = 1 \<or> ?k = 2 \<or> ?k = 3"
    by (simp add: value_buttons_shown_def on_input_step_def)
  have pend: "\<forall>t \<in> set (pending c). task_all (steady ?k) t"
    using assms by (simp add: session_inv_def)
  have a: "\<forall>t \<in> set (pending c). task_all (steady (Suc ?k)) t"
    by (rule steady_tasks_mono [OF pend]) simp
  show ?thesis
    using assms(1) k a badges_distinct
    by (auto simp add: session_inv_def batch_def confirmStep_def awardPoints_def
        checkBadges_def setNewBadge_def Let_def logged_def)
qed

lemma session_inv_age:
  assumes "session_inv c" and "step (state (cur c)) = AGE_SELECTION"
  shows "session_inv (batch (\<lambda>s. s\<lparr>state := (state s)\<lparr>ageGroup := Some age, step := CHARACTER\<rparr>\<rparr>) c)
         \<and> logged (cur c)
             (cur (batch (\<lambda>s. s\<lparr>state := (state s)\<lparr>ageGroup := Some age, step := CHARACTER\<rparr>\<rparr>) c))"
proof -
  have pend: "\<forall>t \<in> set (pending c). task_all (steady (step (state (cur c)))) t"
    using assms by (simp add: session_inv_def)
  have a: "\<forall>t \<in> set (pending c). task_all (steady (Suc 0)) t"
    by (rule steady_tasks_mono [OF pend]) (simp add: assms(2))
  show ?thesis
    using assms a by (auto simp add: session_inv_def batch_def logged_def)
qed

lemma session_inv_tick:
  assumes "session_inv c"
  shows "session_inv (tick eager w c) \<and> logged (cur c) (cur (tick eager w c))"
proof -
  let ?t = "inactivityTimer (cur c) + 1"
  let ?k = "step (state (cur c))"
  let ?calls = "tick_calls w (eff c) ?t"
  let ?u = "\<lambda>s. if eager then (fold writes ?calls s)\<lparr>inactivityTimer := ?t\<rparr>
                 else fold writes ?calls (s\<lparr>inactivityTimer := ?t\<rparr>)"
  have q: "badge_quiet (fold writes ?calls)"
    using tick_calls_tasks [of w "eff c" ?t ?k] by (simp add: badge_quiet_fold)
  have u: "badge_quiet ?u"
    using q by (simp add: badge_quiet_def)
  have aw: "\<forall>t \<in> set (concat (map awaited ?calls)). task_all (steady ?k) t"
    using tick_calls_tasks [of w "eff c" ?t ?k] by auto
  have t: "tick eager w c = (batch ?u c)\<lparr>pending := pending c @ concat (map awaited ?calls)\<rparr>"
    unfolding tick_def Let_def by (rule refl)
  show ?thesis
    unfolding t using assms u aw
    by (auto simp add: session_inv_def batch_def badge_quiet_def logged_def)
qed

lemma fire_session_inv:
  assumes "session_inv c"
  shows "session_inv (fire w c ev) \<and> logged (cur c) (cur (fire w c ev))"
proof -
  let ?k = "step (state (cur c))"
  have same: "logged (cur c) (cur c)" by (simp add: logged_def)
  have sel: "session_inv (start (handleSelection w r choice pre) c)
             \<and> logged (cur c) (cur (start (handleSelection w r choice pre) c))" for r choice pre
    using session_inv_start [OF assms] handleSelection_tasks [of w r choice pre ?k] by simp
  show ?thesis
  proof (cases ev)
    case (AgeClick age)
    then show ?thesis using assms same session_inv_age [OF assms] by simp
  next
    case (Tick eager)
    then show ?thesis using assms same session_inv_tick [OF assms] by simp
  next
    case Activity
    then show ?thesis using assms same session_inv_batch [OF assms badge_quiet_basic(10)] by simp
  next
    case (InputChange v)
    then show ?thesis using assms same session_inv_batch [OF assms badge_quiet_basic(15)] by simp
  next
    case InputEnter
    then show ?thesis using assms same sel by simp
  next
    case DoneClick
    then show ?thesis using assms same sel by simp
  next
    case (OptionClick idx)
    then show ?thesis using assms same sel by (simp split: option.splits)
  next
    case ConfirmNo
    then show ?thesis using assms same session_inv_batch [OF assms badge_quiet_basic(12)] by simp
  next
    case ConfirmYes
    then show ?thesis using assms same sel by (simp split: option.splits)
  next
    case ChangeClick
    have "badge_quiet (\<lambda>s. if step (state (cur c)) = CHARACTER
                           then s\<lparr>state := (state s)\<lparr>character := None\<rparr>\<rparr>
                           else if step (state (cur c)) = PLACE
                           then s\<lparr>state := (state s)\<lparr>place := None\<rparr>\<rparr>
                           else s\<lparr>state := (state s)\<lparr>time := None\<rparr>\<rparr>)"
      by (simp add: badge_quiet_def)
    from session_inv_batch [OF assms this] ChangeClick show ?thesis using assms same by simp
  next
    case NextClick
    then show ?thesis using assms same session_inv_confirm [OF assms] by simp
  next
    case (Voice fragment)
    then show ?thesis using assms same session_inv_batch [OF assms badge_quiet_basic(9)] by simp
  next
    case (PlotChange v)
    have "badge_quiet (\<lambda>s. s\<lparr>state := (state s)\<lparr>plotInput := v\<rparr>\<rparr>)"
      by (simp add: badge_quiet_def)
    from session_inv_batch [OF assms this] PlotChange show ?thesis using assms same by simp
  next
    case GenerateClick
    show ?thesis
    proof (cases "step (state (cur c)) = PLOT \<and> \<not> isLoading (cur c)")
      case False
      then show ?thesis using GenerateClick assms same by auto
    next
      case True
      show ?thesis
      proof (cases "generatePage w (cur c)")
        case None
        then show ?thesis using GenerateClick assms same by simp
      next
        case (Some tk)
        have "PLOT \<le> ?k" using True by simp
        from generatePage_tasks [OF Some this] session_inv_start [OF assms, of tk]
        show ?thesis using GenerateClick True Some by simp
      qed
    qed
  next
    case BadgeClose
    have "session_inv (batch (\<lambda>s. s\<lparr>newBadge := None\<rparr>) c)
          \<and> logged (cur c) (cur (batch (\<lambda>s. s\<lparr>newBadge := None\<rparr>) c))"
      using assms by (auto simp add: session_inv_def batch_def logged_def)
    then show ?thesis using BadgeClose assms same by simp
  next
    case (Settle k)
    then show ?thesis using session_inv_settle [OF assms] by simp
  qed
qed

lemma session_inv_mount: "session_inv (mount p)"
  by (simp add: session_inv_def mount_def wizard_init_def)

lemma session_inv_run: "session_inv (run (mount p) evs)"
proof (induction evs rule: rev_induct)
  case Nil
  then show ?case by (simp add: run_def session_inv_mount)
next
  case (snoc x evs)
  then show ?case by (cases x) (simp add: run_snoc fire_session_inv)
qed


text \<open>
  Claim C4, as stated, fails: committing a value issues no badge. After the character
  \<open>fox\<close> is committed and its image has arrived, no badge is shown and none has been
  issued; the badge comes with the Next button.
\<close>

theorem commit_issues_no_badge:
  "character (state (cur (fox_session 0)))
     = Some \<lparr>Pictured.description = ''fox'', imageUrl = ''data:image/png;base64,AAAA''\<rparr>
   \<and> pending (fox_session 0) = []
   \<and> newBadge (cur (fox_session 0)) = None
   \<and> badgeLog (cur (fox_session 0)) = []
   \<and> newBadge (cur (fire fair (fox_session 0) NextClick)) = Some char_creator"
  by code_simp

text \<open>
  Claim C4, amended. Confirming the character step, with the Next button that is shown
  once a value is committed, issues the badge \<open>Character Creator\<close>; confirming the place
  step issues the badge \<open>World Builder\<close>; confirming the time step issues none. In every
  state of a session, whatever requests are answered late, each of the two badges has
  been issued exactly once when its step has been confirmed and not at all before: the
  log holds it once, and every event adds to the log exactly the badge that it makes
  the component show.
\<close>

theorem badges_issued_once:
  assumes "c = run (mount p) evs"
  shows "newBadge (confirmStep r s)
           = (if step (state r) = CHARACTER then Some char_creator
              else if step (state r) = PLACE then Some world_builder
              else newBadge s)
         \<and> (value_buttons_shown (cur c) \<longrightarrow>
               step (state (cur (fire w c NextClick))) = step (state (cur c)) + 1
               \<and> newBadge (cur (fire w c NextClick))
                   = (if step (state (cur c)) = CHARACTER then Some char_creator
                      else if step (state (cur c)) = PLACE then Some world_builder
                      else newBadge (cur c))
               \<and> badgeLog (cur (fire w c NextClick))
                   = (if step (state (cur c)) = CHARACTER then char_creator # badgeLog (cur c)
                      else if step (state (cur c)) = PLACE then world_builder # badgeLog (cur c)
                      else badgeLog (cur c)))
         \<and> logged (cur c) (cur (fire w c ev))
         \<and> count_list (badgeLog (cur c)) char_creator
             = (if CHARACTER < step (state (cur c)) then 1 else 0)
         \<and> count_list (badgeLog (cur c)) world_builder
             = (if PLACE < step (state (cur c)) then 1 else 0)
         \<and> name char_creator = ''Character Creator'' \<and> name world_builder = ''World Builder''"
proof -
  have inv: "session_inv c" using assms session_inv_run by simp
  have a: "newBadge (confirmStep r s)
           = (if step (state r) = CHARACTER then Some char_creator
              else if step (state r) = PLACE then Some world_builder
              else newBadge s)"
    by (simp add: confirmStep_def awardPoints_def checkBadges_def setNewBadge_def Let_def)
  have b: "value_buttons_shown (cur c) \<longrightarrow>
               step (state (cur (fire w c NextClick))) = step (state (cur c)) + 1
               \<and> newBadge (cur (fire w c NextClick))
                   = (if step (state (cur c)) = CHARACTER then Some char_creator
                      else if step (state (cur c)) = PLACE then Some world_builder
                      else newBadge (cur c))
               \<and> badgeLog (cur (fire w c NextClick))
                   = (if step (state (cur c)) = CHARACTER then char_creator # badgeLog (cur c)
                      else if step (state (cur c)) = PLACE then world_builder # badgeLog (cur c)
                      else badgeLog (cur c))"
    by (simp add: batch_def confirmStep_def awardPoints_def checkBadges_def setNewBadge_def
        Let_def)
  have d: "logged (cur c) (cur (fire w c ev))" using fire_session_inv [OF inv] by simp
  have e: "count_list (badgeLog (cur c)) char_creator
             = (if CHARACTER < step (state (cur c)) then 1 else 0)"
    "count_list (badgeLog (cur c)) world_builder
             = (if PLACE < step (state (cur c)) then 1 else 0)"
    using inv by (simp_all add: session_inv_def)
  have f: "name char_creator = ''Character Creator'' \<and> name world_builder = ''World Builder''"
    by (simp add: char_creator_def world_builder_def)
  from a b d e f show ?thesis by simp
qed

theorem badges_issued_once_witness:
  "value_buttons_shown (cur (fox_session 0))
   \<and> step (state (cur (fox_session 0))) = CHARACTER
   \<and> newBadge (cur (fire fair (fox_session 0) NextClick)) = Some char_creator
   \<and> badgeLog (cur (fire fair (fox_session 0) NextClick)) = [char_creator]
   \<and> logged (cur (fox_session 0)) (cur (fire fair (fox_session 0) NextClick))
   \<and> value_buttons_shown (cur wood_session)
   \<and> step (state (cur wood_session)) = PLACE
   \<and> count_list (badgeLog (cur wood_session)) char_creator = 1
   \<and> count_list (badgeLog (cur wood_session)) world_builder = 0
   \<and> newBadge (cur (fire fair wood_session NextClick)) = Some world_builder
   \<and> badgeLog (cur (fire fair wood_session NextClick)) = [world_builder, char_creator]"
proof -
  have a: "value_buttons_shown (cur (fox_session 0))" "step (state (cur (fox_session 0))) = CHARACTER"
    "badgeLog (cur (fox_session 0)) = []"
    by code_simp+
  have b: "value_buttons_shown (cur wood_session)" "step (state (cur wood_session)) = PLACE"
    "badgeLog (cur wood_session) = [char_creator]"
    by code_simp+
  from badges_issued_once [OF fox_session_def [of 0], where w = fair and ev = NextClick]
       badges_issued_once [OF wood_session_def, where w = fair and ev = NextClick]
  show ?thesis using a b by simp
qed


section \<open>Ticks that do not escalate\<close>

lemma tick_plain:
  assumes "\<not> escalates c"
  shows "mode (cur (tick eager w c)) = mode (cur c)
         \<and> inactivityTimer (cur (tick eager w c)) = inactivityTimer (cur c) + 1"
  using assms
  by (auto simp add: escalates_def tick_def tick_calls_def Let_def batch_def)

lemma past_70: "70 \<le> inactivityTimer (cur c) \<Longrightarrow> \<not> escalates c"
  by (simp add: escalates_def Let_def)

lemma fire_tick_past_70:
  assumes "70 \<le> inactivityTimer (cur c)"
  shows "mode (cur (fire w c (Tick eager))) = mode (cur c)
         \<and> 70 \<le> inactivityTimer (cur (fire w c (Tick eager)))"
  using assms tick_plain [OF past_70 [OF assms], of eager w] by simp

lemma settle_calm:
  assumes "\<forall>t \<in> set (pending c). task_all calm t"
  shows "mode (cur (settle k c)) = mode (cur c)
         \<and> inactivityTimer (cur (settle k c)) = inactivityTimer (cur c)"
proof (cases "k < length (pending c)")
  case False
  then show ?thesis by (simp add: settle_def)
next
  case True
  then have mem: "pending c ! k \<in> set (pending c)" by simp
  show ?thesis
  proof (cases "pending c ! k")
    case (Uncaught e)
    then show ?thesis using True by (simp add: settle_def)
  next
    case (Task f ts)
    with mem assms have "calm f" by auto
    then show ?thesis using True Task by (simp add: settle_def batch_def calm_def)
  qed
qed

lemma idle_past_70:
  assumes "session_inv c" and "70 \<le> inactivityTimer (cur c)"
    and "\<forall>(w, ev) \<in> set evs. is_idle ev"
  shows "session_inv (run c evs) \<and> mode (cur (run c evs)) = mode (cur c)
         \<and> 70 \<le> inactivityTimer (cur (run c evs))"
  using assms(3)
proof (induction evs rule: rev_induct)
  case Nil
  then show ?case using assms(1,2) by (simp add: run_def)
next
  case (snoc x evs)
  obtain w ev where x: "x = (w, ev)" by (cases x)
  from snoc.prems have i: "is_idle ev" and rest: "\<forall>(w, ev) \<in> set evs. is_idle ev"
    by (auto simp add: x)
  let ?c = "run c evs"
  from snoc.IH [OF rest]
  have ih: "session_inv ?c" "mode (cur ?c) = mode (cur c)" "70 \<le> inactivityTimer (cur ?c)"
    by simp_all
  have inv: "session_inv (fire w ?c ev)" using fire_session_inv [OF ih(1)] by simp
  have pend: "\<forall>t \<in> set (pending ?c). task_all (steady (step (state (cur ?c)))) t"
    using ih(1) by (simp add: session_inv_def)
  have calm: "\<forall>t \<in> set (pending ?c). task_all calm t"
    by (rule steady_calm [OF pend])
  have "mode (cur (fire w ?c ev)) = mode (cur ?c) \<and> 70 \<le> inactivityTimer (cur (fire w ?c ev))"
  proof (cases ev)
    case (Tick eager)
    then show ?thesis using fire_tick_past_70 [OF ih(3)] by simp
  next
    case (Settle k)
    then show ?thesis using settle_calm [OF calm, of k] ih(3) by simp
  qed (use i in simp_all)
  then show ?case using inv ih(2) by (simp add: x run_snoc)
qed

text \<open>
  Claim C8, as stated, fails in its last part: after the counter has passed 70 a later
  tick can change the mode on the same step. In the session that declines the
  confirmation card at 65 seconds, the mode is \<open>options\<close> and the counter is at 75 on the
  character step; typing a letter into the text field, which is on screen in that mode,
  sets the counter to 0, and the sixtieth tick after it changes the mode to
  \<open>confirmation\<close>.
\<close>

theorem typing_rearms_escalation:
  "inactivityTimer (cur declined_session) = 75
   \<and> mode (cur declined_session) = Options
   \<and> step (state (cur declined_session)) = CHARACTER
   \<and> input_shown (cur declined_session)
   \<and> inactivityTimer (cur (fire fair declined_session (InputChange ''x''))) = 0
   \<and> mode (cur (run declined_session ((fair, InputChange ''x'') # idle fair True 59))) = Options
   \<and> mode (cur (run declined_session ((fair, InputChange ''x'') # idle fair True 60)))
       = Confirmation
   \<and> step (state (cur (run declined_session ((fair, InputChange ''x'') # idle fair True 60))))
       = CHARACTER"
  by code_simp

text \<open>
  Claim C8, amended. The escalation driven by the tick fires only at the counter values
  30, 60 and 70: a tick for which none of the three guards of the callback holds (the
  incremented counter is none of the three values, or the mode, or at 30 the empty
  free-text, is not the one its guard asks for) leaves the interaction mode unchanged.
  In particular, once the counter has reached 70, as after declining the confirmation
  back to \<open>options\<close> past the 60-second mark, a tick leaves the mode unchanged and the
  counter past 70, so that no later tick changes the mode for as long as nothing resets
  the counter: in every state of a session, no sequence of ticks and of answers to
  pending requests changes the mode again.
\<close>

theorem escalation_only_at_30_60_70:
  "(\<not> escalates c \<longrightarrow> mode (cur (fire w c (Tick eager))) = mode (cur c))
   \<and> (70 \<le> inactivityTimer (cur c) \<longrightarrow>
        mode (cur (fire w c (Tick eager))) = mode (cur c)
        \<and> 70 \<le> inactivityTimer (cur (fire w c (Tick eager))))
   \<and> (c = run (mount p) evs0 \<longrightarrow> 70 \<le> inactivityTimer (cur c) \<longrightarrow>
        (\<forall>(w, ev) \<in> set evs. is_idle ev) \<longrightarrow>
        mode (cur (run c evs)) = mode (cur c) \<and> 70 \<le> inactivityTimer (cur (run c evs)))"
proof (intro conjI impI)
  assume "\<not> escalates c"
  then show "mode (cur (fire w c (Tick eager))) = mode (cur c)"
    by (simp add: tick_plain)
next
  assume a: "70 \<le> inactivityTimer (cur c)"
  from fire_tick_past_70 [OF a]
  show "mode (cur (fire w c (Tick eager))) = mode (cur c)"
    and "70 \<le> inactivityTimer (cur (fire w c (Tick eager)))"
    by simp_all
next
  assume c: "c = run (mount p) evs0" and a: "70 \<le> inactivityTimer (cur c)"
    and i: "\<forall>(w, ev) \<in> set evs. is_idle ev"
  have inv: "session_inv c" using c session_inv_run by simp
  from idle_past_70 [OF inv a i]
  show "mode (cur (run c evs)) = mode (cur c)" and "70 \<le> inactivityTimer (cur (run c evs))"
    by simp_all
qed

theorem escalation_only_at_30_60_70_witness:
  "\<not> escalates (idle_session True 5)
   \<and> mode (cur (idle_session True 5)) = Input
   \<and> mode (cur (fire fair (idle_session True 5) (Tick False))) = Input
   \<and> 70 \<le> inactivityTimer (cur declined_session)
   \<and> mode (cur declined_session) = Options
   \<and> mode (cur (fire fair declined_session (Tick True))) = Options
   \<and> is_idle (Tick False) \<and> is_idle (Settle 0)
   \<and> mode (cur (run declined_session (idle fair False 20 @ answers fair 1))) = Options"
proof -
  have a1: "\<not> escalates (idle_session True 5)" by code_simp
  have a2: "mode (cur (idle_session True 5)) = Input" by code_simp
  have b1: "70 \<le> inactivityTimer (cur declined_session)" by code_simp
  have b2: "mode (cur declined_session) = Options" by code_simp
  have b3: "\<forall>(w, ev) \<in> set (idle fair False 20 @ answers fair 1). is_idle ev"
    by (auto simp add: idle_def answers_def)
  from escalation_only_at_30_60_70 [of "idle_session True 5" fair False]
       escalation_only_at_30_60_70 [where c = declined_session and w = fair and eager = True
         and p = 0 and evs = "idle fair False 20 @ answers fair 1"]
  show ?thesis using a1 a2 b1 b2 b3 declined_session_def by simp
qed


section \<open>Option cards after failures\<close>














text \<open>
  The amended claim is silent on a reply that is valid JSON but not an array. The cast
  \<open>as string[]\<close> lets it through, \<open>texts.map\<close> throws outside any \<open>try\<close> block, and the
  promise of \<open>handleShowOptions\<close> is rejected with nobody to catch it: the mode is
  \<open>options\<close>, and there is no card.
\<close>

lemma non_array_reply_uncaught:
  "awaited (handleShowOptions odd (cur aged)) = [Uncaught TypeError]
   \<and> \<not> caught (handleShowOptions odd (cur aged))
   \<and> mode (cur odd_session) = Options
   \<and> suggestedOptions (cur odd_session) = []
   \<and> length (pending odd_session) = 0"
proof -
  have "generateSuggestions (parse_strings odd)
          (suggestions_reply odd (getContext (cur aged))
             (case ageGroup (state (cur aged)) of None \<Rightarrow> EARLY_READER | Some a \<Rightarrow> a))
        = NotAnArray"
    by code_simp
  then have "awaited (handleShowOptions odd (cur aged)) = [Uncaught TypeError]
             \<and> \<not> caught (handleShowOptions odd (cur aged))"
    by (simp add: handleShowOptions_def)
  moreover have "mode (cur odd_session) = Options" by code_simp
  moreover have "suggestedOptions (cur odd_session) = []" by code_simp
  moreover have "length (pending odd_session) = 0" by code_simp
  ultimately show ?thesis by simp
qed


section \<open>Generating the story\<close>

text \<open>
  Claim C7. A generation that succeeds awards 50 points, issues the badge \<open>Master
  Storyteller\<close> and moves to the preview, whatever the pages; one that fails awards
  nothing and leaves the step, as in the session where not even the placeholder of the
  one image can be made. But the award is not once per session. The button that
  generates the story is disabled while \<open>isLoading\<close> is set, and \<open>isLoading\<close> is also what
  \<open>handleSelection\<close> sets and clears: the \<open>finally\<close> block of a selection whose image arrives
  late, during the generation, clears it, the button is enabled again, and a second
  click starts a second generation. When both are answered, 50 points are awarded twice
  and the badge is issued twice.
\<close>

theorem story_awarded_twice:
  "currentPoints (generate_settled (Inr newPages) s) = currentPoints s + 50
   \<and> newBadge (generate_settled (Inr newPages) s) = Some master_story
   \<and> step (state (generate_settled (Inr newPages) s)) = PREVIEW
   \<and> generatedPages (state (generate_settled (Inr newPages) s)) = newPages
   \<and> currentPoints (generate_settled (Inl e) s) = currentPoints s
   \<and> newBadge (generate_settled (Inl e) s) = newBadge s
   \<and> state (generate_settled (Inl e) s) = state s
   \<and> name master_story = ''Master Storyteller''
   \<and> step (state (cur failed_generation)) = PLOT
   \<and> currentPoints (cur failed_generation) = 30
   \<and> newBadge (cur failed_generation) = None
   \<and> \<not> isLoading (cur failed_generation)
   \<and> length (pending failed_generation) = 0
   \<and> isLoading (cur (run (mount 0) (take 16 hasty_events)))
   \<and> length (pending (run (mount 0) (take 16 hasty_events))) = 2
   \<and> step (state (cur (run (mount 0) (take 17 hasty_events)))) = PLOT
   \<and> \<not> isLoading (cur (run (mount 0) (take 17 hasty_events)))
   \<and> length (pending (run (mount 0) (take 17 hasty_events))) = 1
   \<and> length (pending (hasty_session 0)) = 2
   \<and> currentPoints (cur (hasty_session 0)) = 30
   \<and> step (state (cur (hasty_session 1))) = PREVIEW
   \<and> currentPoints (cur (hasty_session 1)) = 80
   \<and> badgeLog (cur (hasty_session 1)) = [master_story, world_builder, char_creator]
   \<and> currentPoints (cur (hasty_session 2)) = 130
   \<and> newBadge (cur (hasty_session 2)) = Some master_story
   \<and> badgeLog (cur (hasty_session 2)) = [master_story, master_story, world_builder, char_creator]
   \<and> count_list (badgeLog (cur (hasty_session 2))) master_story = 2"
proof -
  have a: "currentPoints (generate_settled (Inr newPages) s) = currentPoints s + 50
   \<and> newBadge (generate_settled (Inr newPages) s) = Some master_story
   \<and> step (state (generate_settled (Inr newPages) s)) = PREVIEW
   \<and> generatedPages (state (generate_settled (Inr newPages) s)) = newPages
   \<and> currentPoints (generate_settled (Inl e) s) = currentPoints s
   \<and> newBadge (generate_settled (Inl e) s) = newBadge s
   \<and> state (generate_settled (Inl e) s) = state s
   \<and> name master_story = ''Master Storyteller''"
    by (simp add: generate_settled_def awardPoints_def setNewBadge_def master_story_def Let_def)
  have b: "step (state (cur failed_generation)) = PLOT
   \<and> currentPoints (cur failed_generation) = 30
   \<and> newBadge (cur failed_generation) = None
   \<and> \<not> isLoading (cur failed_generation)
   \<and> length (pending failed_generation) = 0"
    by code_simp
  have c: "isLoading (cur (run (mount 0) (take 16 hasty_events)))
   \<and> length (pending (run (mount 0) (take 16 hasty_events))) = 2
   \<and> step (state (cur (run (mount 0) (take 17 hasty_events)))) = PLOT
   \<and> \<not> isLoading (cur (run (mount 0) (take 17 hasty_events)))
   \<and> length (pending (run (mount 0) (take 17 hasty_events))) = 1"
    by code_simp
  have d: "length (pending (hasty_session 0)) = 2
   \<and> currentPoints (cur (hasty_session 0)) = 30
   \<and> step (state (cur (hasty_session 1))) = PREVIEW
   \<and> currentPoints (cur (hasty_session 1)) = 80
   \<and> badgeLog (cur (hasty_session 1)) = [master_story, world_builder, char_creator]"
    by code_simp
  have e: "currentPoints (cur (hasty_session 2)) = 130
   \<and> newBadge (cur (hasty_session 2)) = Some master_story
   \<and> badgeLog (cur (hasty_session 2)) = [master_story, master_story, world_builder, char_creator]
   \<and> count_list (badgeLog (cur (hasty_session 2))) master_story = 2"
    by code_simp
  from a b c d e show ?thesis by blast
qed

section \<open>The idle escalation\<close>

text \<open>
  In every state of a session in which the interval is installed the tick changes the
  mode as scheduled: to \<open>options\<close> at 30 in mode \<open>input\<close> with empty free-text, to
  \<open>confirmation\<close> at 60 in mode \<open>options\<close>, and back to \<open>input\<close>, by the selection, at 70 in
  mode \<open>confirmation\<close>. The candidate chosen at 60 is the first option of the list of the
  render in which the effect last ran.
\<close>

lemma tick_changes_mode:
  assumes "c = run (mount p) evs" and "listening c"
  shows "(inactivityTimer (cur c) = 29 \<longrightarrow> mode (cur c) = Input \<longrightarrow> tempInput (cur c) = [] \<longrightarrow>
            mode (cur (fire w c (Tick eager))) = Options)
         \<and> (inactivityTimer (cur c) = 59 \<longrightarrow> mode (cur c) = Options \<longrightarrow>
              mode (cur (fire w c (Tick eager))) = Confirmation
              \<and> autoSelectCandidate (cur (fire w c (Tick eager)))
                  = Some (case at (suggestedOptions (eff c)) 0 of
                            Some first \<Rightarrow> first
                          | None \<Rightarrow> \<lparr>label = Some ''Magic Friend'', imageUrl = None,
                                      loading = False\<rparr>))
         \<and> (inactivityTimer (cur c) = 69 \<longrightarrow> mode (cur c) = Confirmation \<longrightarrow>
              mode (cur (fire w c (Tick eager))) = Input)"
proof -
  have "rendered c" using assms(1) rendered_run [OF rendered_mount] by simp
  then have e: "mode (eff c) = mode (cur c)" "tempInput (eff c) = tempInput (cur c)"
    by (simp_all add: rendered_def deps_def)
  have a: "inactivityTimer (cur c) = 29 \<longrightarrow> mode (cur c) = Input \<longrightarrow> tempInput (cur c) = [] \<longrightarrow>
            mode (cur (tick eager w c)) = Options"
    using e by (simp add: tick_def tick_calls_def Let_def batch_def handleShowOptions_def)
  have b: "inactivityTimer (cur c) = 59 \<longrightarrow> mode (cur c) = Options \<longrightarrow>
              mode (cur (tick eager w c)) = Confirmation
              \<and> autoSelectCandidate (cur (tick eager w c))
                  = Some (case at (suggestedOptions (eff c)) 0 of
                            Some first \<Rightarrow> first
                          | None \<Rightarrow> \<lparr>label = Some ''Magic Friend'', imageUrl = None,
                                      loading = False\<rparr>)"
    using e by (simp add: tick_def tick_calls_def Let_def batch_def handleShowConfirmation_def)
  have d: "inactivityTimer (cur c) = 69 \<longrightarrow> mode (cur c) = Confirmation \<longrightarrow>
              mode (cur (tick eager w c)) = Input"
    using e
    by (simp add: tick_def tick_calls_def Let_def batch_def handleAutoSelect_def
        handleSelection_def select_pictured_def selection_begin_def selection_finally_def
        set_character_def set_place_def set_time_def split: option.splits)
  from a b d assms(2) show ?thesis by simp
qed

text \<open>
  Claim C1. In a session that only stays idle the mode becomes \<open>options\<close> at 30 and the
  suggestions and their images arrive; at 60 the mode becomes \<open>confirmation\<close>, and at 70
  the candidate is committed as \<open>handleSelection\<close> commits it. But the candidate is not the
  first suggested option. \<open>handleShowConfirmation\<close> reads \<open>suggestedOptions[0]\<close> in the
  closure of the interval callback, and \<open>suggestedOptions\<close> is not among the dependencies
  of the effect that installs the interval: the effect last ran when the mode became
  \<open>options\<close>, before any suggestion had arrived, and the list that its callback reads is
  empty. After 59 idle seconds the first card on screen is \<open>Cat\<close> with its image; at 60
  the candidate is \<open>Magic Friend\<close>, the fallback for an empty list, and at 70 that is the
  character.
\<close>

theorem idle_candidate_ignores_suggestions:
  "mode (cur (idle_session True 29)) = Input
   \<and> mode (cur (idle_session True 30)) = Options
   \<and> listening (offered_session True 29)
   \<and> inactivityTimer (cur (offered_session True 29)) = 59
   \<and> options_shown (cur (offered_session True 29))
   \<and> at (suggestedOptions (cur (offered_session True 29))) 0
        = Some \<lparr>label = Some ''Cat'', imageUrl = Some ''data:image/png;base64,AAAA'',
                 loading = False\<rparr>
   \<and> suggestedOptions (eff (offered_session True 29)) = []
   \<and> mode (cur (offered_session True 30)) = Confirmation
   \<and> autoSelectCandidate (cur (offered_session True 30))
        = Some \<lparr>label = Some ''Magic Friend'', imageUrl = None, loading = False\<rparr>
   \<and> autoSelectCandidate (cur (offered_session False 30))
        = Some \<lparr>label = Some ''Magic Friend'', imageUrl = None, loading = False\<rparr>
   \<and> at (suggestedOptions (cur (offered_session True 30))) 0
        = Some \<lparr>label = Some ''Cat'', imageUrl = Some ''data:image/png;base64,AAAA'',
                 loading = False\<rparr>
   \<and> isLoading (cur (offered_session True 40))
   \<and> character (state (cur (run (offered_session True 40) (answers fair 1))))
        = Some \<lparr>Pictured.description = ''Magic Friend'',
                 imageUrl = ''data:image/png;base64,AAAA''\<rparr>
   \<and> character (state (cur (run (offered_session False 40) (answers fair 1))))
        = Some \<lparr>Pictured.description = ''Magic Friend'',
                 imageUrl = ''data:image/png;base64,AAAA''\<rparr>"
proof -
  have a: "mode (cur (idle_session True 29)) = Input
   \<and> mode (cur (idle_session True 30)) = Options"
    by code_simp
  have b: "listening (offered_session True 29)
   \<and> inactivityTimer (cur (offered_session True 29)) = 59
   \<and> options_shown (cur (offered_session True 29))
   \<and> at (suggestedOptions (cur (offered_session True 29))) 0
        = Some \<lparr>label = Some ''Cat'', imageUrl = Some ''data:image/png;base64,AAAA'',
                 loading = False\<rparr>
   \<and> suggestedOptions (eff (offered_session True 29)) = []"
    by code_simp
  have c: "mode (cur (offered_session True 30)) = Confirmation
   \<and> autoSelectCandidate (cur (offered_session True 30))
        = Some \<lparr>label = Some ''Magic Friend'', imageUrl = None, loading = False\<rparr>
   \<and> autoSelectCandidate (cur (offered_session False 30))
        = Some \<lparr>label = Some ''Magic Friend'', imageUrl = None, loading = False\<rparr>
   \<and> at (suggestedOptions (cur (offered_session True 30))) 0
        = Some \<lparr>label = Some ''Cat'', imageUrl = Some ''data:image/png;base64,AAAA'',
                 loading = False\<rparr>"
    by code_simp
  have d: "isLoading (cur (offered_session True 40))
   \<and> character (state (cur (run (offered_session True 40) (answers fair 1))))
        = Some \<lparr>Pictured.description = ''Magic Friend'',
                 imageUrl = ''data:image/png;base64,AAAA''\<rparr>
   \<and> character (state (cur (run (offered_session False 40) (answers fair 1))))
        = Some \<lparr>Pictured.description = ''Magic Friend'',
                 imageUrl = ''data:image/png;base64,AAAA''\<rparr>"
    by code_simp
  from a b c d show ?thesis by blast
qed

end
